theory Spec2Isabelle
  imports Main "HOL-Library.Word"
begin

unbundle bit_operations_syntax

section \<open>JavaScript strings\<close>

text \<open>
  A JavaScript string is a sequence of UTF-16 code units and \<open>length\<close> counts them.
  The embedding uses \<open>string\<close>: one \<open>char\<close> is one code unit, so it covers the strings
  whose code units are below 256 (ASCII and Latin-1). Every URL, code and header name
  of the sources is such a string.
\<close>

definition js_whitespace :: "char \<Rightarrow> bool" where
  \<comment> \<open>WhiteSpace and LineTerminator of ECMAScript, below 256: TAB, LF, VT, FF, CR, SP, NBSP.\<close>
  "js_whitespace c =
     (c \<in> set [CHR 0x09, CHR 0x0A, CHR 0x0B, CHR 0x0C, CHR 0x0D, CHR 0x20, CHR 0xA0])"

definition trim :: "string \<Rightarrow> string" where
  \<comment> \<open>\<open>String.prototype.trim\<close>\<close>
  "trim s = rev (dropWhile js_whitespace (rev (dropWhile js_whitespace s)))"

definition toLowerCase_char :: "char \<Rightarrow> char" where
  "toLowerCase_char c =
     (let n = (of_char c :: nat)
      in if (65 \<le> n \<and> n \<le> 90) \<or> (192 \<le> n \<and> n \<le> 222 \<and> n \<noteq> 215)
         then char_of (n + 32) else c)"

definition toLowerCase :: "string \<Rightarrow> string" where
  \<comment> \<open>\<open>String.prototype.toLowerCase\<close>\<close>
  "toLowerCase s = map toLowerCase_char s"

definition startsWith :: "string \<Rightarrow> string \<Rightarrow> bool" where
  "startsWith s p = (take (length p) s = p)"

definition endsWith :: "string \<Rightarrow> string \<Rightarrow> bool" where
  "endsWith s p = (length p \<le> length s \<and> drop (length s - length p) s = p)"

definition truthy :: "string \<Rightarrow> bool" where
  \<comment> \<open>a string is falsy exactly when it is empty\<close>
  "truthy s = (s \<noteq> [])"

section \<open>Exceptions and the observable effects\<close>

datatype exn =
    Error string
  | TypeError
  | RangeError
  | SyntaxError
  | FsError
  | KVError
  | NEXT_NOT_FOUND
  | NEXT_REDIRECT string string nat

record UrlData =
  url :: string
  createdAt :: string
  expiresAt :: "string option"

datatype event =
    StorageSave string UrlData
  | StorageGet string
  | StorageExists string
  | ConsoleWarn string nat
  | ConsoleError string

fun is_storage_call :: "event \<Rightarrow> bool" where
  "is_storage_call (StorageSave c d) = True"
| "is_storage_call (StorageGet c) = True"
| "is_storage_call (StorageExists c) = True"
| "is_storage_call (ConsoleWarn c n) = False"
| "is_storage_call (ConsoleError m) = False"

fun is_storage_write :: "event \<Rightarrow> bool" where
  "is_storage_write (StorageSave c d) = True"
| "is_storage_write (StorageGet c) = False"
| "is_storage_write (StorageExists c) = False"
| "is_storage_write (ConsoleWarn c n) = False"
| "is_storage_write (ConsoleError m) = False"

section \<open>The store (lib/store.ts)\<close>

subsection \<open>Plain JavaScript objects used as dictionaries\<close>

text \<open>
  \<open>readData\<close> returns a plain object. Its own properties are the saved entries; every
  plain object also inherits the members of \<open>Object.prototype\<close>, which \<open>obj[key]\<close> and
  \<open>key in obj\<close> see. An assignment \<open>obj[key] = v\<close> creates or overwrites an own
  property, except that assigning an object to \<open>__proto__\<close> (when it is not an own
  property) runs the inherited setter and creates nothing.
\<close>

definition Object_prototype_names :: "string list" where
  "Object_prototype_names =
     [''constructor'', ''__defineGetter__'', ''__defineSetter__'', ''hasOwnProperty'',
      ''__lookupGetter__'', ''__lookupSetter__'', ''isPrototypeOf'',
      ''propertyIsEnumerable'', ''toString'', ''valueOf'', ''__proto__'',
      ''toLocaleString'']"

datatype fetched = Null | Data UrlData | Inherited string

definition js_member_or_null :: "(string \<rightharpoonup> UrlData) \<Rightarrow> string \<Rightarrow> fetched" where
  \<comment> \<open>\<open>obj[key] || null\<close>: a record and an inherited member are truthy, \<open>undefined\<close> is not\<close>
  "js_member_or_null obj key =
     (case obj key of
        Some d \<Rightarrow> Data d
      | None \<Rightarrow> if key \<in> set Object_prototype_names then Inherited key else Null)"

definition js_in :: "string \<Rightarrow> (string \<rightharpoonup> UrlData) \<Rightarrow> bool" where
  \<comment> \<open>\<open>key in obj\<close>\<close>
  "js_in key obj = (obj key \<noteq> None \<or> key \<in> set Object_prototype_names)"

definition js_assign :: "(string \<rightharpoonup> UrlData) \<Rightarrow> string \<Rightarrow> UrlData \<Rightarrow> (string \<rightharpoonup> UrlData)" where
  \<comment> \<open>\<open>obj[key] = data\<close>\<close>
  "js_assign obj key data =
     (if key = ''__proto__'' \<and> obj key = None then obj else obj(key \<mapsto> data))"

subsection \<open>LocalJSONAdapter\<close>

text \<open>
  The state of the local adapter is the file \<open>data/urls.json\<close>: \<open>urls_json = None\<close> is a file
  that is missing or does not parse, \<open>urls_json = Some m\<close> a file holding the JSON object
  with the entries \<open>m\<close>. \<open>writable\<close> says whether \<open>mkdir\<close> and \<open>writeFile\<close> succeed; a
  failed write leaves the file as it was.
\<close>

record fs =
  urls_json :: "(string \<rightharpoonup> UrlData) option"
  writable :: bool

definition readData :: "fs \<Rightarrow> (string \<rightharpoonup> UrlData)" where
  "readData f = (case urls_json f of None \<Rightarrow> Map.empty | Some m \<Rightarrow> m)"

definition writeData :: "(string \<rightharpoonup> UrlData) \<Rightarrow> fs \<Rightarrow> (exn + unit) \<times> fs" where
  "writeData m f = (if writable f then (Inr (), f\<lparr>urls_json := Some m\<rparr>) else (Inl FsError, f))"

definition LocalJSONAdapter_save :: "string \<Rightarrow> UrlData \<Rightarrow> fs \<Rightarrow> (exn + unit) \<times> fs" where
  "LocalJSONAdapter_save code data f =
     (let allData = readData f;
          allData' = js_assign allData code data
      in writeData allData' f)"

definition LocalJSONAdapter_get :: "string \<Rightarrow> fs \<Rightarrow> (exn + fetched) \<times> fs" where
  "LocalJSONAdapter_get code f =
     (let allData = readData f in (Inr (js_member_or_null allData code), f))"

definition LocalJSONAdapter_exists :: "string \<Rightarrow> fs \<Rightarrow> (exn + bool) \<times> fs" where
  "LocalJSONAdapter_exists code f =
     (let allData = readData f in (Inr (js_in code allData), f))"

subsection \<open>VercelKVAdapter\<close>

text \<open>
  The key-value service is outside the repository. It is a map from keys to values;
  when it cannot be reached (\<open>online = False\<close>) every call of the client throws.
\<close>

record kv =
  entries :: "string \<rightharpoonup> UrlData"
  online :: bool

definition getKey :: "string \<Rightarrow> string" where
  "getKey code = ''shorturl:'' @ code"

definition VercelKVAdapter_save :: "string \<Rightarrow> UrlData \<Rightarrow> kv \<Rightarrow> (exn + unit) \<times> kv" where
  "VercelKVAdapter_save code data k =
     (let key = getKey code
      in if online k then (Inr (), k\<lparr>entries := (entries k)(key \<mapsto> data)\<rparr>)
         else (Inl KVError, k))"

definition VercelKVAdapter_get :: "string \<Rightarrow> kv \<Rightarrow> (exn + fetched) \<times> kv" where
  "VercelKVAdapter_get code k =
     (let key = getKey code
      in if online k
         then (Inr (case entries k key of None \<Rightarrow> Null | Some d \<Rightarrow> Data d), k)
         else (Inl KVError, k))"

definition VercelKVAdapter_exists :: "string \<Rightarrow> kv \<Rightarrow> (exn + bool) \<times> kv" where
  "VercelKVAdapter_exists code k =
     (let key = getKey code
      in if online k
         then (let exists = (if entries k key \<noteq> None then 1 else 0 :: nat)
               in (Inr (exists = 1), k))
         else (Inl KVError, k))"

subsection \<open>The storage singleton and the utility functions\<close>

datatype storage = LocalJSONAdapter fs | VercelKVAdapter kv

fun storage_save :: "string \<Rightarrow> UrlData \<Rightarrow> storage \<Rightarrow> (exn + unit) \<times> storage" where
  "storage_save code data (LocalJSONAdapter f) =
     (let (r, f') = LocalJSONAdapter_save code data f in (r, LocalJSONAdapter f'))"
| "storage_save code data (VercelKVAdapter k) =
     (let (r, k') = VercelKVAdapter_save code data k in (r, VercelKVAdapter k'))"

fun storage_get :: "string \<Rightarrow> storage \<Rightarrow> (exn + fetched) \<times> storage" where
  "storage_get code (LocalJSONAdapter f) =
     (let (r, f') = LocalJSONAdapter_get code f in (r, LocalJSONAdapter f'))"
| "storage_get code (VercelKVAdapter k) =
     (let (r, k') = VercelKVAdapter_get code k in (r, VercelKVAdapter k'))"

fun storage_exists :: "string \<Rightarrow> storage \<Rightarrow> (exn + bool) \<times> storage" where
  "storage_exists code (LocalJSONAdapter f) =
     (let (r, f') = LocalJSONAdapter_exists code f in (r, LocalJSONAdapter f'))"
| "storage_exists code (VercelKVAdapter k) =
     (let (r, k') = VercelKVAdapter_exists code k in (r, VercelKVAdapter k'))"

text \<open>
  The world a request runs in: the storage singleton, the log of storage calls and
  console output, the random bytes the platform will deliver (\<open>pool\<close>, read from
  \<open>poolOffset\<close> on) and the clock reading \<open>new Date().toISOString()\<close> returns.
\<close>

record world =
  store :: storage
  events :: "event list"
  pool :: "nat \<Rightarrow> 8 word"
  poolOffset :: nat
  now :: string

definition saveUrl :: "string \<Rightarrow> string \<Rightarrow> world \<Rightarrow> (exn + unit) \<times> world" where
  "saveUrl code u w =
     (let data = \<lparr>url = u, createdAt = now w, expiresAt = None\<rparr>;
          (r, s') = storage_save code data (store w)
      in (r, w\<lparr>store := s', events := events w @ [StorageSave code data]\<rparr>))"

fun url_or_null :: "fetched \<Rightarrow> string option" where
  \<comment> \<open>\<open>data?.url || null\<close>\<close>
  "url_or_null Null = None"
| "url_or_null (Data d) = (if truthy (url d) then Some (url d) else None)"
| "url_or_null (Inherited n) = None"

definition getUrl :: "string \<Rightarrow> world \<Rightarrow> (exn + string option) \<times> world" where
  "getUrl code w =
     (let (r, s') = storage_get code (store w);
          w' = w\<lparr>store := s', events := events w @ [StorageGet code]\<rparr>
      in case r of
           Inl e \<Rightarrow> (Inl e, w')
         | Inr data \<Rightarrow> (Inr (url_or_null data), w'))"

definition urlExists :: "string \<Rightarrow> world \<Rightarrow> (exn + bool) \<times> world" where
  "urlExists code w =
     (let (r, s') = storage_exists code (store w)
      in (r, w\<lparr>store := s', events := events w @ [StorageExists code]\<rparr>))"

section \<open>Short codes (lib/nanoid.ts)\<close>

definition ALPHABET :: string where
  "ALPHABET = ''0123456789ABCDEFGHIJKLMNOPQRSTUVWXYZabcdefghijklmnopqrstuvwxyz''"

definition CODE_LENGTH :: nat where
  "CODE_LENGTH = 6"

definition MAX_RETRIES :: nat where
  "MAX_RETRIES = 5"

text \<open>
  \<open>nanoid\<close> is the function of the npm package of that name, called here with a size
  and nothing else. The package draws one random byte per symbol and indexes its own
  64-symbol \<open>urlAlphabet\<close> with the low six bits of the byte.
\<close>

definition urlAlphabet :: string where
  "urlAlphabet = ''useandom-26T198340PX75pxJACKVERYMINDBUSHWOLF_GQZbfghjklqvwyzrict''"

definition nanoid :: "nat \<Rightarrow> world \<Rightarrow> string \<times> world" where
  "nanoid sz w =
     (map (\<lambda>i. urlAlphabet ! unat (pool w i AND 63)) [poolOffset w ..< poolOffset w + sz],
      w\<lparr>poolOffset := poolOffset w + sz\<rparr>)"

definition console_warn :: "string \<Rightarrow> nat \<Rightarrow> world \<Rightarrow> world" where
  "console_warn code attempts w = w\<lparr>events := events w @ [ConsoleWarn code attempts]\<rparr>"

function generateUniqueCode_loop :: "nat \<Rightarrow> world \<Rightarrow> (exn + string) \<times> world" where
  "generateUniqueCode_loop attempts w =
     (if attempts < MAX_RETRIES then
        (let (code, w1) = nanoid CODE_LENGTH w;
             (r, w2) = urlExists code w1
         in case r of
              Inl e \<Rightarrow> (Inl e, w2)
            | Inr exists \<Rightarrow>
                if \<not> exists then (Inr code, w2)
                else generateUniqueCode_loop (attempts + 1)
                       (console_warn code (attempts + 1) w2))
      else (Inl (Error ''Failed to generate unique short code after 5 attempts''), w))"
  by pat_completeness auto
termination
  by (relation "measure (\<lambda>(attempts, w). MAX_RETRIES - attempts)") auto

declare generateUniqueCode_loop.simps [simp del]

definition generateUniqueCode :: "world \<Rightarrow> (exn + string) \<times> world" where
  "generateUniqueCode w = generateUniqueCode_loop 0 w"

definition generateCode :: "nat option \<Rightarrow> world \<Rightarrow> string \<times> world" where
  \<comment> \<open>\<open>None\<close> is the call without an argument: the default length applies\<close>
  "generateCode len w = nanoid (case len of None \<Rightarrow> CODE_LENGTH | Some n \<Rightarrow> n) w"

definition isValidCodeFormat :: "string \<Rightarrow> bool" where
  "isValidCodeFormat code =
     (if length code \<noteq> CODE_LENGTH then False
      else list_all (\<lambda>char. char \<in> set ALPHABET) code)"

section \<open>URL validation (lib/validator.ts)\<close>

definition MIN_LENGTH :: nat where
  "MIN_LENGTH = 10"

definition MAX_LENGTH :: nat where
  "MAX_LENGTH = 2048"

definition ALLOWED_PROTOCOLS :: "string list" where
  "ALLOWED_PROTOCOLS = [''http'', ''https'']"

definition BLOCKED_DOMAINS :: "string list" where
  "BLOCKED_DOMAINS = [''localhost'', ''127.0.0.1'', ''0.0.0.0'']"

datatype ValidationError =
    EMPTY_URL
  | TOO_SHORT
  | TOO_LONG
  | INVALID_FORMAT
  | INVALID_PROTOCOL
  | BLOCKED_DOMAIN

record ValidationResult =
  isValid :: bool
  error :: "ValidationError option"
  message :: "string option"
  normalizedUrl :: "string option"

text \<open>
  Two functions are not code of the repository: \<open>validator.isURL\<close> (called with the
  fixed options of the source) and the platform's \<open>new URL(s)\<close>, which throws on a
  string it cannot parse (\<open>None\<close>) and otherwise gives an object of which the source
  reads \<open>protocol\<close>, \<open>hostname\<close> and \<open>toString()\<close> (\<open>href\<close>). \<open>validateUrl\<close> takes both
  as a parameter, so that what is proved of it holds whatever they compute.
\<close>

record URL =
  protocol :: string
  hostname :: string
  href :: string

record url_lib =
  isURL :: "string \<Rightarrow> bool"
  new_URL :: "string \<Rightarrow> URL option"

definition failure :: "ValidationError \<Rightarrow> string \<Rightarrow> ValidationResult" where
  "failure e m = \<lparr>isValid = False, error = Some e, message = Some m, normalizedUrl = None\<rparr>"

definition blocked :: "string \<Rightarrow> bool" where
  \<comment> \<open>\<open>BLOCKED_DOMAINS.some(domain => hostname === domain || hostname.endsWith(`.${domain}`))\<close>\<close>
  "blocked hostname' =
     list_ex (\<lambda>domain. hostname' = domain \<or> endsWith hostname' (''.'' @ domain)) BLOCKED_DOMAINS"

definition validateUrl :: "url_lib \<Rightarrow> string \<Rightarrow> ValidationResult" where
  "validateUrl L u =
     (let trimmedUrl = trim u in
      if \<not> truthy trimmedUrl then failure EMPTY_URL ''URL cannot be empty''
      else if length trimmedUrl < MIN_LENGTH
        then failure TOO_SHORT ''URL must be at least 10 characters long''
      else if length trimmedUrl > MAX_LENGTH
        then failure TOO_LONG ''URL must be less than 2048 characters long''
      else if \<not> isURL L trimmedUrl
        then failure INVALID_FORMAT
               ''Please enter a valid URL starting with http:// or https://''
      else
        (case new_URL L trimmedUrl of
           None \<Rightarrow> failure INVALID_FORMAT ''Invalid URL format''
         | Some parsedUrl \<Rightarrow>
             (let protocol' = butlast (protocol parsedUrl) in
              if protocol' \<notin> set ALLOWED_PROTOCOLS
                then failure INVALID_PROTOCOL ''Only HTTP and HTTPS URLs are allowed''
              else
                (let hostname' = toLowerCase (hostname parsedUrl) in
                 if blocked hostname'
                   then failure BLOCKED_DOMAIN ''This domain is not allowed''
                 else \<lparr>isValid = True, error = None, message = None,
                        normalizedUrl = Some (href parsedUrl)\<rparr>))))"

section \<open>The redirect page (app/[code]/page.tsx)\<close>

text \<open>
  \<open>notFound()\<close> and \<open>redirect(url)\<close> of \<open>next/navigation\<close> never return: each throws
  an error that the framework turns into the response, and every path of the page
  ends in one of them, so the page's result is what it throws. The error of
  \<open>redirect\<close> has the digest \<open>NEXT_REDIRECT;type;url;status;\<close>. Called with the url
  alone from a page, as here, the type is \<open>replace\<close> and the status 307 (temporary
  redirect); the permanent redirect, status 308, is the framework's other function
  \<open>permanentRedirect\<close>, which the page does not call.
\<close>

definition notFound :: exn where
  "notFound = NEXT_NOT_FOUND"

definition redirect :: "string \<Rightarrow> exn" where
  "redirect u = NEXT_REDIRECT ''replace'' u 307"

definition console_error :: "string \<Rightarrow> world \<Rightarrow> world" where
  "console_error m w = w\<lparr>events := events w @ [ConsoleError m]\<rparr>"

fun is_next_redirect :: "exn \<Rightarrow> bool" where
  \<comment> \<open>the test of the \<open>catch\<close>: an object whose \<open>digest\<close> is a string containing NEXT_REDIRECT\<close>
  "is_next_redirect (NEXT_REDIRECT k u st) = True"
| "is_next_redirect e = False"

definition RedirectPage_try :: "string \<Rightarrow> world \<Rightarrow> exn \<times> world" where
  "RedirectPage_try code w =
     (let (r, w1) = getUrl code w in
      case r of
        Inl e \<Rightarrow> (e, w1)
      | Inr originalUrl \<Rightarrow>
          (case originalUrl of
             None \<Rightarrow> (notFound, w1)
           | Some u \<Rightarrow> if \<not> truthy u then (notFound, w1) else (redirect u, w1)))"

definition RedirectPage :: "string \<Rightarrow> world \<Rightarrow> exn \<times> world" where
  "RedirectPage code w =
     (if \<not> isValidCodeFormat code then (notFound, w)
      else
        (let (e, w1) = RedirectPage_try code w in
         if is_next_redirect e then (e, w1)
         else (notFound, console_error (''Error redirecting code '' @ code @ '':'') w1)))"

section \<open>The creation endpoint (app/api/shorten/route.ts)\<close>

datatype json =
    JNull
  | JBool bool
  | JNum int
  | JStr string
  | JArr "json list"
  | JObj "(string \<times> json) list"

text \<open>
  \<open>json_body = None\<close> is a request whose body is not JSON: \<open>request.json()\<close> rejects.
\<close>

record request =
  json_body :: "json option"
  nextUrl_protocol :: string
  nextUrl_host :: string
  nextUrl_pathname :: string
  request_headers :: "string \<rightharpoonup> string"

fun body_url :: "json \<Rightarrow> exn + json option" where
  \<comment> \<open>\<open>body.url\<close>: a property read of \<open>null\<close> throws; the last of duplicate keys wins\<close>
  "body_url JNull = Inl TypeError"
| "body_url (JObj kvs) = Inr (map_of (rev kvs) ''url'')"
| "body_url j = Inr None"

datatype payload = Success string string | Failure string string

record response =
  status :: nat
  payload :: payload
  response_headers :: "(string \<times> string) list"

definition errorCodeMap :: "ValidationError \<Rightarrow> string" where
  "errorCodeMap e =
     (case e of
        EMPTY_URL \<Rightarrow> ''EMPTY_URL''
      | TOO_SHORT \<Rightarrow> ''URL_TOO_SHORT''
      | TOO_LONG \<Rightarrow> ''URL_TOO_LONG''
      | INVALID_FORMAT \<Rightarrow> ''INVALID_URL_FORMAT''
      | INVALID_PROTOCOL \<Rightarrow> ''INVALID_PROTOCOL''
      | BLOCKED_DOMAIN \<Rightarrow> ''BLOCKED_DOMAIN'')"

definition json_response :: "nat \<Rightarrow> payload \<Rightarrow> response" where
  "json_response st p = \<lparr>status = st, payload = p, response_headers = []\<rparr>"

definition POST_shorten ::
  "url_lib \<Rightarrow> string option \<Rightarrow> request \<Rightarrow> string \<Rightarrow> world \<Rightarrow> response \<times> world" where
  \<comment> \<open>the part of \<open>POST\<close> after a successful validation; \<open>app_url\<close> is \<open>NEXT_PUBLIC_APP_URL\<close>\<close>
  "POST_shorten L app_url req normalized w =
     (let (g, w1) = generateUniqueCode w in
      case g of
        Inl e \<Rightarrow>
          (json_response 500
             (Failure ''CODE_GENERATION_FAILED''
                ''Unable to generate short code. Please try again.''),
           console_error ''Failed to generate unique code:'' w1)
      | Inr shortCode \<Rightarrow>
          (let (s, w2) = saveUrl shortCode normalized w1 in
           case s of
             Inl e \<Rightarrow>
               (json_response 500
                  (Failure ''STORAGE_ERROR'' ''Failed to save URL. Please try again.''),
                console_error ''Failed to save URL:'' w2)
           | Inr u \<Rightarrow>
               (let baseUrl =
                      (case app_url of
                         Some a \<Rightarrow>
                           if truthy a then a
                           else nextUrl_protocol req @ ''//'' @ nextUrl_host req
                       | None \<Rightarrow> nextUrl_protocol req @ ''//'' @ nextUrl_host req);
                    shortUrl = baseUrl @ ''/'' @ shortCode
                in (\<lparr>status = 200, payload = Success shortUrl shortCode,
                     response_headers =
                       [(''Cache-Control'', ''no-cache, no-store, must-revalidate'')]\<rparr>,
                    w2))))"

definition POST :: "url_lib \<Rightarrow> string option \<Rightarrow> request \<Rightarrow> world \<Rightarrow> response \<times> world" where
  "POST L app_url req w =
     (case json_body req of
        None \<Rightarrow>
          (json_response 400 (Failure ''INVALID_JSON'' ''Invalid JSON in request body''), w)
      | Some body \<Rightarrow>
          (case body_url body of
             Inl e \<Rightarrow>
               (json_response 500
                  (Failure ''INTERNAL_ERROR''
                     ''An unexpected error occurred. Please try again.''),
                console_error ''Unexpected error in shorten API:'' w)
           | Inr (Some (JStr u)) \<Rightarrow>
               if \<not> truthy u
                 then (json_response 400 (Failure ''MISSING_URL'' ''URL is required''), w)
               else
                 (let validation = validateUrl L u in
                  if \<not> isValid validation then
                    (json_response 400
                       (Failure (errorCodeMap (the (error validation)))
                          (case message validation of
                             Some m \<Rightarrow> if truthy m then m else ''Invalid URL''
                           | None \<Rightarrow> ''Invalid URL'')),
                     w)
                  else POST_shorten L app_url req (the (normalizedUrl validation)) w)
           | Inr other \<Rightarrow>
               (json_response 400 (Failure ''MISSING_URL'' ''URL is required''), w)))"

section \<open>The rate-limiting middleware (middleware.ts)\<close>

record RatelimitResponse =
  success :: bool
  limit :: int
  reset :: int
  remaining :: int

datatype header_value = Number_toString int | Date_toISOString int

definition toISOString :: "int \<Rightarrow> exn + header_value" where
  \<comment> \<open>\<open>new Date(t).toISOString()\<close> throws a RangeError outside the range of time values\<close>
  "toISOString t =
     (if \<bar>t\<bar> \<le> 8640000000000000 then Inr (Date_toISOString t) else Inl RangeError)"

datatype mw_response =
    NextResponse_next "(string \<times> header_value) list"
  | NextResponse_json nat string string "(string \<times> header_value) list"

definition client_ip :: "request \<Rightarrow> string" where
  "client_ip req =
     (case request_headers req ''x-forwarded-for'' of
        Some a \<Rightarrow> a
      | None \<Rightarrow>
          (case request_headers req ''x-real-ip'' of
             Some b \<Rightarrow> b
           | None \<Rightarrow> ''127.0.0.1''))"

definition rate_limit_headers :: "RatelimitResponse \<Rightarrow> exn + (string \<times> header_value) list" where
  "rate_limit_headers r =
     (case toISOString (reset r) of
        Inl e \<Rightarrow> Inl e
      | Inr resetText \<Rightarrow>
          Inr [(''X-RateLimit-Limit'', Number_toString (limit r)),
               (''X-RateLimit-Remaining'', Number_toString (remaining r)),
               (''X-RateLimit-Reset'', resetText)])"

text \<open>
  \<open>ratelimit.limit\<close> is the call of the limiter backend: it throws (\<open>Inl\<close>) or answers.
  The middleware returns its response and what it wrote with \<open>console.error\<close>.
\<close>

definition middleware ::
  "(string \<Rightarrow> exn + RatelimitResponse) \<Rightarrow> request \<Rightarrow> mw_response \<times> event list" where
  "middleware ratelimit_limit req =
     (if startsWith (nextUrl_pathname req) ''/api/'' then
        (let ip = client_ip req in
         case ratelimit_limit ip of
           Inl e \<Rightarrow> (NextResponse_next [], [ConsoleError ''Rate limiting error:''])
         | Inr r \<Rightarrow>
             (case rate_limit_headers r of
                Inl e \<Rightarrow> (NextResponse_next [], [ConsoleError ''Rate limiting error:''])
              | Inr hs \<Rightarrow>
                  if \<not> success r
                    then (NextResponse_json 429 ''RATE_LIMIT_EXCEEDED''
                            ''Too many requests. Please try again later.'' hs, [])
                  else (NextResponse_next hs, [])))
      else (NextResponse_next [], []))"

section \<open>Notions used to state the properties\<close>

text \<open>
  The \<open>k\<close>-th candidate: the code the \<open>k\<close>-th iteration of \<open>generateUniqueCode\<close> draws
  when it starts in \<open>w\<close> (each iteration consumes \<open>CODE_LENGTH\<close> random bytes).
\<close>

definition candidate :: "world \<Rightarrow> nat \<Rightarrow> string" where
  "candidate w k =
     fst (nanoid CODE_LENGTH (w\<lparr>poolOffset := poolOffset w + k * CODE_LENGTH\<rparr>))"

definition new_events :: "world \<Rightarrow> world \<Rightarrow> event list" where
  \<comment> \<open>what a run from \<open>w\<close> to \<open>w'\<close> added to the log\<close>
  "new_events w w' = drop (length (events w)) (events w')"

definition after_check :: "world \<Rightarrow> world" where
  \<comment> \<open>the world after one candidate was drawn and checked\<close>
  "after_check w =
     w\<lparr>poolOffset := poolOffset w + CODE_LENGTH,
       events := events w @ [StorageExists (candidate w 0)]\<rparr>"

text \<open>
  The block-list in the specification's words. Two characters are the same letter
  when they are equal or one is an ASCII capital and the other its small letter; two
  host names are equal ignoring case when they have the same letters in the same
  places; a host name is a subdomain of a domain when it ends, ignoring case, in a
  dot followed by the domain. None of this refers to \<open>toLowerCase\<close>.
\<close>

definition same_letter :: "char \<Rightarrow> char \<Rightarrow> bool" where
  "same_letter a b =
     (a = b
      \<or> (65 \<le> (of_char a :: nat) \<and> (of_char a :: nat) \<le> 90 \<and> (of_char b :: nat) = of_char a + 32)
      \<or> (65 \<le> (of_char b :: nat) \<and> (of_char b :: nat) \<le> 90 \<and> (of_char a :: nat) = of_char b + 32))"

definition equal_ignoring_case :: "string \<Rightarrow> string \<Rightarrow> bool" where
  "equal_ignoring_case h d = list_all2 same_letter h d"

definition subdomain_of :: "string \<Rightarrow> string \<Rightarrow> bool" where
  "subdomain_of h d =
     (length d < length h
      \<and> equal_ignoring_case (drop (length h - Suc (length d)) h) (''.'' @ d))"

definition on_block_list :: "string \<Rightarrow> bool" where
  "on_block_list h =
     list_ex (\<lambda>d. equal_ignoring_case h d \<or> subdomain_of h d)
       [''localhost'', ''127.0.0.1'', ''0.0.0.0'']"

definition plain_char :: "char \<Rightarrow> bool" where
  \<comment> \<open>a small ASCII letter, a digit or a dot: the characters of the block-list\<close>
  "plain_char c =
     ((97 \<le> (of_char c :: nat) \<and> (of_char c :: nat) \<le> 122)
      \<or> (48 \<le> (of_char c :: nat) \<and> (of_char c :: nat) \<le> 57)
      \<or> (of_char c :: nat) = 46)"

definition code_taxonomy :: "(string \<times> nat) list" where
  \<comment> \<open>the error codes of section 7 of the specification, with their HTTP status\<close>
  "code_taxonomy =
     [(''EMPTY_URL'', 400), (''TOO_SHORT'', 400), (''TOO_LONG'', 400),
      (''INVALID_FORMAT'', 400), (''INVALID_PROTOCOL'', 400), (''BLOCKED_DOMAIN'', 400),
      (''CODE_GENERATION_FAILED'', 500), (''STORAGE_ERROR'', 500),
      (''RATE_LIMIT_EXCEEDED'', 429), (''INTERNAL_ERROR'', 500)]"

definition route_codes :: "(string \<times> nat) list" where
  \<comment> \<open>the error codes \<open>POST\<close> of route.ts writes, with their HTTP status\<close>
  "route_codes =
     [(''INVALID_JSON'', 400), (''MISSING_URL'', 400), (''EMPTY_URL'', 400),
      (''URL_TOO_SHORT'', 400), (''URL_TOO_LONG'', 400), (''INVALID_URL_FORMAT'', 400),
      (''INVALID_PROTOCOL'', 400), (''BLOCKED_DOMAIN'', 400),
      (''CODE_GENERATION_FAILED'', 500), (''STORAGE_ERROR'', 500),
      (''INTERNAL_ERROR'', 500)]"

fun failure_code :: "response \<Rightarrow> (string \<times> nat) option" where
  "failure_code r =
     (case payload r of Failure c m \<Rightarrow> Some (c, status r) | Success u c \<Rightarrow> None)"

fun run_saves :: "(string \<times> UrlData) list \<Rightarrow> fs \<Rightarrow> fs" where
  \<comment> \<open>a history of \<open>save\<close> calls on the local adapter\<close>
  "run_saves [] f = f"
| "run_saves ((c, d) # ops) f = run_saves ops (snd (LocalJSONAdapter_save c d f))"

subsection \<open>Concrete inputs\<close>

definition lib_of :: "string list \<Rightarrow> (string \<times> URL) list \<Rightarrow> url_lib" where
  \<comment> \<open>library behaviour given as a table: the strings \<open>isURL\<close> accepts, and the parses\<close>
  "lib_of accepted parses = \<lparr>isURL = (\<lambda>s. s \<in> set accepted), new_URL = map_of parses\<rparr>"

definition example_lib :: url_lib where
  \<comment> \<open>what the two library functions answer on four strings\<close>
  "example_lib =
     lib_of [''https://example.com/a'', ''http://127.0.0.1/abc'', ''http://API.LOCALHOST/x'']
       [(''https://example.com/a'',
           \<lparr>protocol = ''https:'', hostname = ''example.com'',
            href = ''https://example.com/a''\<rparr>),
        (''http://127.0.0.1/abc'',
           \<lparr>protocol = ''http:'', hostname = ''127.0.0.1'',
            href = ''http://127.0.0.1/abc''\<rparr>),
        (''http://API.LOCALHOST/x'',
           \<lparr>protocol = ''http:'', hostname = ''api.localhost'',
            href = ''http://api.localhost/x''\<rparr>)]"



text \<open>
  Two spellings of one URL, with the serialization both parse to.
\<close>

definition round_trip_lib :: url_lib where
  "round_trip_lib =
     lib_of [''HTTPS://EXAMPLE.COM/a'', ''https://example.com/a'']
       [(''HTTPS://EXAMPLE.COM/a'',
           \<lparr>protocol = ''https:'', hostname = ''example.com'',
            href = ''https://example.com/a''\<rparr>),
        (''https://example.com/a'',
           \<lparr>protocol = ''https:'', hostname = ''example.com'',
            href = ''https://example.com/a''\<rparr>)]"

text \<open>
  A URL of 2048 characters whose path consists of braces. \<open>isURL\<close> does not look at
  the path, and the URL serializer percent-encodes a brace in a path as three
  characters (\<open>%7B\<close>), so the normalized string has 6120 characters.
\<close>

definition long_url :: string where
  "long_url = ''http://a.bc/'' @ replicate 2036 (CHR ''{'')"

definition long_url_normalized :: string where
  "long_url_normalized = ''http://a.bc/'' @ concat (replicate 2036 ''%7B'')"


definition long_lib :: url_lib where
  "long_lib =
     lib_of [long_url]
       [(long_url,
           \<lparr>protocol = ''http:'', hostname = ''a.bc'', href = long_url_normalized\<rparr>)]"

definition record_a :: UrlData where
  "record_a =
     \<lparr>url = ''https://example.com/a'', createdAt = ''2024-01-01T00:00:00.000Z'',
      expiresAt = None\<rparr>"

definition empty_fs :: fs where
  "empty_fs = \<lparr>urls_json = None, writable = True\<rparr>"

definition world_of :: "storage \<Rightarrow> (nat \<Rightarrow> 8 word) \<Rightarrow> world" where
  "world_of s bytes =
     \<lparr>store = s, events = [], pool = bytes, poolOffset = 0,
      now = ''2024-01-01T00:00:00.000Z''\<rparr>"

definition w_dash :: world where
  \<comment> \<open>an empty local store; every random byte is 8\<close>
  "w_dash = world_of (LocalJSONAdapter empty_fs) (\<lambda>i. 8)"

definition fs_busy4 :: fs where
  "fs_busy4 =
     \<lparr>urls_json = Some [''useand'' \<mapsto> record_a, ''om-26T'' \<mapsto> record_a,
                        ''198340'' \<mapsto> record_a, ''PX75px'' \<mapsto> record_a],
      writable = True\<rparr>"

definition fs_busy5 :: fs where
  "fs_busy5 =
     \<lparr>urls_json = Some [''useand'' \<mapsto> record_a, ''om-26T'' \<mapsto> record_a,
                        ''198340'' \<mapsto> record_a, ''PX75px'' \<mapsto> record_a,
                        ''JACKVE'' \<mapsto> record_a],
      writable = True\<rparr>"

definition w_busy4 :: world where
  \<comment> \<open>the random bytes are 0, 1, 2, ...; the first four candidates are stored\<close>
  "w_busy4 = world_of (LocalJSONAdapter fs_busy4) (\<lambda>i. of_nat i)"

definition w_busy5 :: world where
  "w_busy5 = world_of (LocalJSONAdapter fs_busy5) (\<lambda>i. of_nat i)"

definition blank_record :: UrlData where
  "blank_record = \<lparr>url = [], createdAt = ''2024-01-01T00:00:00.000Z'', expiresAt = None\<rparr>"

definition w_blank :: world where
  \<comment> \<open>a local store in which the code abc123 has a record with the empty url\<close>
  "w_blank =
     world_of (LocalJSONAdapter \<lparr>urls_json = Some [''abc123'' \<mapsto> blank_record],
                                 writable = True\<rparr>) (\<lambda>i. 0)"

definition w_stored :: world where
  \<comment> \<open>a local store in which the code abc123 has the record of https://example.com/a\<close>
  "w_stored =
     world_of (LocalJSONAdapter \<lparr>urls_json = Some [''abc123'' \<mapsto> record_a],
                                 writable = True\<rparr>) (\<lambda>i. 0)"

definition w_offline :: world where
  \<comment> \<open>the key-value service cannot be reached\<close>
  "w_offline = world_of (VercelKVAdapter \<lparr>entries = Map.empty, online = False\<rparr>) (\<lambda>i. 0)"

definition limiter_down :: "string \<Rightarrow> exn + RatelimitResponse" where
  "limiter_down ip = Inl KVError"

definition limiter_exceeded :: "string \<Rightarrow> exn + RatelimitResponse" where
  "limiter_exceeded ip =
     Inr \<lparr>success = False, limit = 20, reset = 1704067260000, remaining = 0\<rparr>"

definition request_of :: "json option \<Rightarrow> request" where
  "request_of b =
     \<lparr>json_body = b, nextUrl_protocol = ''https:'', nextUrl_host = ''sho.rt'',
      nextUrl_pathname = ''/api/shorten'', request_headers = Map.empty\<rparr>"

section \<open>Short codes: alphabet and length\<close>

lemma urlAlphabet_length: "length urlAlphabet = 64"
  by (simp add: urlAlphabet_def)

lemma low_six_bits: "unat ((b :: 8 word) AND 63) < 64"
proof -
  have "b AND 63 \<le> 63"
    by (rule word_and_le1)
  then have "unat (b AND 63) \<le> unat (63 :: 8 word)"
    by (simp add: word_le_nat_alt)
  then show ?thesis
    by simp
qed

lemma nanoid_length: "length (fst (nanoid n w)) = n"
  by (simp add: nanoid_def)

lemma nanoid_symbols: "set (fst (nanoid n w)) \<subseteq> set urlAlphabet"
  by (auto simp: nanoid_def urlAlphabet_length low_six_bits)

lemma candidate_length: "length (candidate w k) = CODE_LENGTH"
  by (simp add: candidate_def nanoid_length)

lemma not_prototype_name: "length c = CODE_LENGTH \<Longrightarrow> c \<notin> set Object_prototype_names"
  by (auto simp: CODE_LENGTH_def Object_prototype_names_def)

text \<open>
  C1. Generated codes have six symbols, but \<open>nanoid(CODE_LENGTH)\<close> draws them from the
  package's 64-symbol alphabet, not from \<open>ALPHABET\<close>: when every random byte is 8,
  \<open>generateUniqueCode\<close> and \<open>generateCode()\<close> return the code of six hyphens, which has
  a symbol outside \<open>ALPHABET\<close> and which \<open>isValidCodeFormat\<close> rejects.
\<close>

theorem generateUniqueCode_leaves_ALPHABET:
  "fst (generateUniqueCode w_dash) = Inr ''------''
   \<and> fst (generateCode None w_dash) = ''------''
   \<and> length ''------'' = CODE_LENGTH
   \<and> \<not> list_all (\<lambda>c. c \<in> set ALPHABET) ''------''
   \<and> \<not> isValidCodeFormat ''------''"
proof -
  have draw: "fst (nanoid CODE_LENGTH w_dash) = ''------''"
    by (simp add: nanoid_def w_dash_def world_of_def CODE_LENGTH_def urlAlphabet_def upt_rec)
  have "fst (generateUniqueCode w_dash) = Inr ''------''"
    unfolding generateUniqueCode_def
    by (subst generateUniqueCode_loop.simps)
       (simp add: MAX_RETRIES_def nanoid_def w_dash_def world_of_def empty_fs_def
          CODE_LENGTH_def urlAlphabet_def urlExists_def LocalJSONAdapter_exists_def
          readData_def js_in_def Object_prototype_names_def upt_rec)
  moreover have "fst (generateCode None w_dash) = ''------''"
    using draw by (simp add: generateCode_def)
  moreover have "\<not> list_all (\<lambda>c. c \<in> set ALPHABET) ''------''"
    by (simp add: ALPHABET_def)
  moreover have "\<not> isValidCodeFormat ''------''"
    by (simp add: isValidCodeFormat_def CODE_LENGTH_def ALPHABET_def)
  ultimately show ?thesis
    by (simp add: CODE_LENGTH_def)
qed

section \<open>The allocation loop\<close>

lemma storage_exists_pure: "snd (storage_exists c s) = s"
  by (cases s)
     (simp_all add: LocalJSONAdapter_exists_def VercelKVAdapter_exists_def Let_def)

lemma urlExists_eq:
  "urlExists c w = (fst (storage_exists c (store w)), w\<lparr>events := events w @ [StorageExists c]\<rparr>)"
  using storage_exists_pure [of c "store w"]
  by (cases "storage_exists c (store w)") (simp add: urlExists_def)


lemma loop_unfold:
  "attempts < MAX_RETRIES \<Longrightarrow>
   generateUniqueCode_loop attempts w =
     (case fst (storage_exists (candidate w 0) (store w)) of
        Inl e \<Rightarrow> (Inl e, after_check w)
      | Inr ex \<Rightarrow>
          if \<not> ex then (Inr (candidate w 0), after_check w)
          else generateUniqueCode_loop (attempts + 1)
                 (console_warn (candidate w 0) (attempts + 1) (after_check w)))"
  by (subst generateUniqueCode_loop.simps)
     (simp add: urlExists_eq nanoid_def candidate_def after_check_def split: sum.splits)

lemma loop_stop:
  "\<not> attempts < MAX_RETRIES \<Longrightarrow>
   generateUniqueCode_loop attempts w =
     (Inl (Error ''Failed to generate unique short code after 5 attempts''), w)"
  by (subst generateUniqueCode_loop.simps) simp

lemma candidate_shift:
  "candidate (console_warn c n (after_check w)) j = candidate w (Suc j)"
  by (simp add: candidate_def console_warn_def after_check_def nanoid_def algebra_simps)

lemma store_shift: "store (console_warn c n (after_check w)) = store w"
  by (simp add: console_warn_def after_check_def)

lemma store_after_check: "store (after_check w) = store w"
  by (simp add: after_check_def)

lemma events_shift:
  "events (console_warn c n (after_check w)) =
     events w @ [StorageExists (candidate w 0), ConsoleWarn c n]"
  by (simp add: console_warn_def after_check_def)


lemma loop_store: "store (snd (generateUniqueCode_loop attempts w)) = store w"
proof (induction "MAX_RETRIES - attempts" arbitrary: attempts w)
  case 0
  then show ?case by (simp add: loop_stop)
next
  case (Suc n)
  then have lt: "attempts < MAX_RETRIES" and n: "n = MAX_RETRIES - (attempts + 1)"
    by simp_all
  show ?case
    using Suc.hyps(1) [OF n]
    by (simp add: loop_unfold [OF lt] store_after_check store_shift split: sum.splits)
qed

lemma loop_events:
  "\<exists>es. events (snd (generateUniqueCode_loop attempts w)) = events w @ es
      \<and> filter is_storage_write es = []
      \<and> length (filter is_storage_call es) \<le> MAX_RETRIES - attempts"
proof (induction "MAX_RETRIES - attempts" arbitrary: attempts w)
  case 0
  then show ?case by (simp add: loop_stop)
next
  case (Suc n)
  then have lt: "attempts < MAX_RETRIES" and n: "n = MAX_RETRIES - (attempts + 1)"
    by simp_all
  let ?w = "console_warn (candidate w 0) (attempts + 1) (after_check w)"
  from Suc.hyps(1) [OF n, of ?w] obtain es where
    es: "events (snd (generateUniqueCode_loop (attempts + 1) ?w)) = events ?w @ es"
        "filter is_storage_write es = []"
        "length (filter is_storage_call es) \<le> MAX_RETRIES - (attempts + 1)"
    by blast
  show ?case
  proof (cases "fst (storage_exists (candidate w 0) (store w))")
    case (Inl e)
    then show ?thesis using lt by (simp add: loop_unfold after_check_def)
  next
    case (Inr ex)
    show ?thesis
    proof (cases ex)
      case False
      with Inr lt show ?thesis by (simp add: loop_unfold after_check_def)
    next
      case True
      with Inr lt es show ?thesis
        by (simp add: loop_unfold events_shift)
    qed
  qed
qed

lemma loop_first_absent:
  "attempts + k < MAX_RETRIES \<Longrightarrow>
   list_all (\<lambda>j. fst (storage_exists (candidate w j) (store w)) = Inr True) [0..<k] \<Longrightarrow>
   fst (storage_exists (candidate w k) (store w)) = Inr False \<Longrightarrow>
   fst (generateUniqueCode_loop attempts w) = Inr (candidate w k)
   \<and> filter is_storage_call (new_events w (snd (generateUniqueCode_loop attempts w))) =
       map (\<lambda>j. StorageExists (candidate w j)) [0..<Suc k]"
proof (induction k arbitrary: attempts w)
  case 0
  then show ?case
    by (simp add: loop_unfold after_check_def new_events_def)
next
  case (Suc k)
  let ?w = "console_warn (candidate w 0) (attempts + 1) (after_check w)"
  from Suc.prems have lt: "attempts < MAX_RETRIES" and lt': "(attempts + 1) + k < MAX_RETRIES"
    by simp_all
  from Suc.prems(2) have c0: "fst (storage_exists (candidate w 0) (store w)) = Inr True"
    by (simp add: upt_rec [of 0] del: upt_Suc)
  have all: "list_all (\<lambda>j. fst (storage_exists (candidate ?w j) (store ?w)) = Inr True) [0..<k]"
    using Suc.prems(2) by (simp add: list_all_iff candidate_shift store_shift del: upt_Suc) 
  have last: "fst (storage_exists (candidate ?w k) (store ?w)) = Inr False"
    using Suc.prems(3) by (simp add: candidate_shift store_shift)
  note IH = Suc.IH [OF lt' all last]
  have ev: "\<exists>es. events (snd (generateUniqueCode_loop (attempts + 1) ?w)) = events ?w @ es"
    using loop_events [of "attempts + 1" ?w] by blast
  have shift: "map (\<lambda>j. StorageExists (candidate w (Suc j))) [0..<Suc k] =
               map (\<lambda>j. StorageExists (candidate w j)) [Suc 0..<Suc (Suc k)]"
    by (simp add: map_Suc_upt [symmetric] del: upt_Suc)
  show ?case
    using IH ev c0 lt shift
    by (auto simp add: loop_unfold new_events_def events_shift candidate_shift  upt_rec [of 0 "Suc (Suc k)"]
          simp del: upt_Suc)
qed

lemma loop_exhausted:
  "attempts + n = MAX_RETRIES \<Longrightarrow>
   list_all (\<lambda>j. fst (storage_exists (candidate w j) (store w)) = Inr True) [0..<n] \<Longrightarrow>
   fst (generateUniqueCode_loop attempts w) =
     Inl (Error ''Failed to generate unique short code after 5 attempts'')
   \<and> filter is_storage_call (new_events w (snd (generateUniqueCode_loop attempts w))) =
       map (\<lambda>j. StorageExists (candidate w j)) [0..<n]"
proof (induction n arbitrary: attempts w)
  case 0
  then show ?case by (simp add: loop_stop new_events_def)
next
  case (Suc n)
  let ?w = "console_warn (candidate w 0) (attempts + 1) (after_check w)"
  from Suc.prems have lt: "attempts < MAX_RETRIES" and eq': "(attempts + 1) + n = MAX_RETRIES"
    by simp_all
  from Suc.prems(2) have c0: "fst (storage_exists (candidate w 0) (store w)) = Inr True"
    by (simp add: upt_rec [of 0] del: upt_Suc)
  have all: "list_all (\<lambda>j. fst (storage_exists (candidate ?w j) (store ?w)) = Inr True) [0..<n]"
    using Suc.prems(2) by (simp add: list_all_iff candidate_shift store_shift del: upt_Suc) 
  note IH = Suc.IH [OF eq' all]
  have ev: "\<exists>es. events (snd (generateUniqueCode_loop (attempts + 1) ?w)) = events ?w @ es"
    using loop_events [of "attempts + 1" ?w] by blast
  have shift: "map (\<lambda>j. StorageExists (candidate w (Suc j))) [0..<n] =
               map (\<lambda>j. StorageExists (candidate w j)) [Suc 0..<Suc n]"
    by (simp add: map_Suc_upt [symmetric] del: upt_Suc)
  show ?case
    using IH ev c0 lt shift
    by (auto simp add: loop_unfold new_events_def events_shift candidate_shift upt_rec [of 0 "Suc n"]
          simp del: upt_Suc)
qed


text \<open>
  C2. \<open>generateUniqueCode\<close> leaves the store as it is, writes nothing to it and makes
  at most \<open>MAX_RETRIES\<close> = 5 storage calls, all of them \<open>exists\<close> checks. When the first
  \<open>k\<close> candidates are stored and candidate \<open>k\<close> < 5 is not, it returns candidate \<open>k\<close>
  after \<open>k + 1\<close> checks. When all five candidates are stored it throws, and \<open>POST\<close>
  answers a request with a valid URL with status 500 and CODE_GENERATION_FAILED.
\<close>

theorem generateUniqueCode_first_absent_of_five:
  "(store (snd (generateUniqueCode w)) = store w
    \<and> take (length (events w)) (events (snd (generateUniqueCode w))) = events w
    \<and> filter is_storage_write (new_events w (snd (generateUniqueCode w))) = []
    \<and> length (filter is_storage_call (new_events w (snd (generateUniqueCode w))))
        \<le> MAX_RETRIES)
   \<and> (k < MAX_RETRIES
        \<and> list_all (\<lambda>j. fst (storage_exists (candidate w j) (store w)) = Inr True) [0..<k]
        \<and> fst (storage_exists (candidate w k) (store w)) = Inr False
      \<longrightarrow> fst (generateUniqueCode w) = Inr (candidate w k)
          \<and> filter is_storage_call (new_events w (snd (generateUniqueCode w))) =
              map (\<lambda>j. StorageExists (candidate w j)) [0..<Suc k])
   \<and> (list_all (\<lambda>j. fst (storage_exists (candidate w j) (store w)) = Inr True)
          [0..<MAX_RETRIES]
      \<longrightarrow> fst (generateUniqueCode w) =
            Inl (Error ''Failed to generate unique short code after 5 attempts'')
          \<and> (json_body req = Some (JObj [(''url'', JStr u)]) \<and> isValid (validateUrl L u)
             \<longrightarrow> fst (POST L app_url req w) =
                   json_response 500
                     (Failure ''CODE_GENERATION_FAILED''
                        ''Unable to generate short code. Please try again.'')))"
proof -
  obtain es where es:
      "events (snd (generateUniqueCode w)) = events w @ es"
      "filter is_storage_write es = []"
      "length (filter is_storage_call es) \<le> MAX_RETRIES"
    using loop_events [of 0 w] by (auto simp: generateUniqueCode_def)
  have frame:
    "store (snd (generateUniqueCode w)) = store w
     \<and> take (length (events w)) (events (snd (generateUniqueCode w))) = events w
     \<and> filter is_storage_write (new_events w (snd (generateUniqueCode w))) = []
     \<and> length (filter is_storage_call (new_events w (snd (generateUniqueCode w))))
         \<le> MAX_RETRIES"
    using es by (simp add: new_events_def generateUniqueCode_def loop_store)
  have hit:
    "k < MAX_RETRIES
       \<and> list_all (\<lambda>j. fst (storage_exists (candidate w j) (store w)) = Inr True) [0..<k]
       \<and> fst (storage_exists (candidate w k) (store w)) = Inr False
     \<longrightarrow> fst (generateUniqueCode w) = Inr (candidate w k)
         \<and> filter is_storage_call (new_events w (snd (generateUniqueCode w))) =
             map (\<lambda>j. StorageExists (candidate w j)) [0..<Suc k]"
    using loop_first_absent [of 0 k w] by (simp add: generateUniqueCode_def)
  have miss:
    "list_all (\<lambda>j. fst (storage_exists (candidate w j) (store w)) = Inr True)
        [0..<MAX_RETRIES]
     \<longrightarrow> fst (generateUniqueCode w) =
           Inl (Error ''Failed to generate unique short code after 5 attempts'')"
    using loop_exhausted [of 0 MAX_RETRIES w] by (simp add: generateUniqueCode_def)
  have report:
    "fst (generateUniqueCode w) =
        Inl (Error ''Failed to generate unique short code after 5 attempts'')
     \<Longrightarrow> json_body req = Some (JObj [(''url'', JStr u)]) \<Longrightarrow> isValid (validateUrl L u)
     \<Longrightarrow> fst (POST L app_url req w) =
           json_response 500
             (Failure ''CODE_GENERATION_FAILED''
                ''Unable to generate short code. Please try again.'')"
  proof -
    assume g: "fst (generateUniqueCode w) =
                 Inl (Error ''Failed to generate unique short code after 5 attempts'')"
       and b: "json_body req = Some (JObj [(''url'', JStr u)])"
       and v: "isValid (validateUrl L u)"
    have "truthy u"
    proof (rule ccontr)
      assume "\<not> truthy u"
      then have "u = []" by (simp add: truthy_def)
      then have "\<not> isValid (validateUrl L u)"
        by (simp add: validateUrl_def trim_def truthy_def failure_def)
      with v show False by simp
    qed
    with g b v show ?thesis
      by (cases "generateUniqueCode w") (simp add: POST_def POST_shorten_def)
  qed
  from frame hit miss report show ?thesis
    by blast
qed

theorem generateUniqueCode_first_absent_of_five_witness:
  "(4 < MAX_RETRIES
    \<and> list_all (\<lambda>j. fst (storage_exists (candidate w_busy4 j) (store w_busy4)) = Inr True)
         [0..<4]
    \<and> fst (storage_exists (candidate w_busy4 4) (store w_busy4)) = Inr False
    \<and> fst (generateUniqueCode w_busy4) = Inr ''JACKVE'')
   \<and> (list_all (\<lambda>j. fst (storage_exists (candidate w_busy5 j) (store w_busy5)) = Inr True)
         [0..<MAX_RETRIES]
    \<and> isValid (validateUrl example_lib ''https://example.com/a'')
    \<and> fst (generateUniqueCode w_busy5) =
         Inl (Error ''Failed to generate unique short code after 5 attempts'')
    \<and> fst (POST example_lib None
              (request_of (Some (JObj [(''url'', JStr ''https://example.com/a'')]))) w_busy5) =
         json_response 500
           (Failure ''CODE_GENERATION_FAILED''
              ''Unable to generate short code. Please try again.''))"
proof -
  have cand:
    "candidate (world_of s (\<lambda>i. of_nat i)) 0 = ''useand''"
    "candidate (world_of s (\<lambda>i. of_nat i)) (Suc 0) = ''om-26T''"
    "candidate (world_of s (\<lambda>i. of_nat i)) 2 = ''198340''"
    "candidate (world_of s (\<lambda>i. of_nat i)) 3 = ''PX75px''"
    "candidate (world_of s (\<lambda>i. of_nat i)) 4 = ''JACKVE''" for s
    by (simp_all add: candidate_def world_of_def nanoid_def CODE_LENGTH_def
          urlAlphabet_def upt_rec)
  have upt: "[0..<5] = [0, 1, 2, 3, 4]" "[0..<4] = [0, 1, 2, 3]"
    by (simp_all add: upt_rec)
  have four: "4 < MAX_RETRIES"
    by (simp add: MAX_RETRIES_def)
  have busy4:
    "list_all (\<lambda>j. fst (storage_exists (candidate w_busy4 j) (store w_busy4)) = Inr True)
       [0..<4]"
    "fst (storage_exists (candidate w_busy4 4) (store w_busy4)) = Inr False"
    by (simp_all add: upt w_busy4_def cand)
       (simp_all add: world_of_def fs_busy4_def LocalJSONAdapter_exists_def readData_def
          js_in_def Object_prototype_names_def)
  have busy5:
    "list_all (\<lambda>j. fst (storage_exists (candidate w_busy5 j) (store w_busy5)) = Inr True)
       [0..<MAX_RETRIES]"
    by (simp add: upt w_busy5_def cand MAX_RETRIES_def)
       (simp add: world_of_def fs_busy5_def LocalJSONAdapter_exists_def readData_def
          js_in_def Object_prototype_names_def)
  have trim: "trim ''https://example.com/a'' = ''https://example.com/a''"
    by (simp add: trim_def js_whitespace_def)
  have valid: "isValid (validateUrl example_lib ''https://example.com/a'')"
    by (simp add: validateUrl_def trim truthy_def MIN_LENGTH_def MAX_LENGTH_def
          example_lib_def lib_of_def ALLOWED_PROTOCOLS_def blocked_def BLOCKED_DOMAINS_def
          toLowerCase_def toLowerCase_char_def endsWith_def)
  have c4: "candidate w_busy4 4 = ''JACKVE''"
    by (simp add: w_busy4_def cand)
  show ?thesis
    using generateUniqueCode_first_absent_of_five [of w_busy4 4]
      generateUniqueCode_first_absent_of_five [of w_busy5 0
        "request_of (Some (JObj [(''url'', JStr ''https://example.com/a'')]))"
        "''https://example.com/a''" example_lib None]
      four busy4 busy5 valid c4
    by (simp add: request_of_def)
qed

section \<open>URL validation\<close>

lemma trim_Nil: "trim [] = []"
  by (simp add: trim_def)

lemma trim_id:
  assumes "s \<noteq> []" "\<not> js_whitespace (hd s)" "\<not> js_whitespace (last s)"
  shows "trim s = s"
proof -
  have "dropWhile js_whitespace s = s"
    using assms by (simp add: dropWhile_eq_self_iff)
  moreover have "dropWhile js_whitespace (rev s) = rev s"
    using assms by (simp add: dropWhile_eq_self_iff hd_rev)
  ultimately show ?thesis
    by (simp add: trim_def)
qed

lemma failure_sel:
  "isValid (failure e m) = False" "error (failure e m) = Some e"
  "normalizedUrl (failure e m) = None" "message (failure e m) = Some m"
  by (simp_all add: failure_def)

subsection \<open>The block-list and the case of letters\<close>

lemma lower_code:
  fixes n m :: nat
  assumes "n < 256"
      and "(97 \<le> m \<and> m \<le> 122) \<or> (48 \<le> m \<and> m \<le> 57) \<or> m = 46"
  shows "((if (65 \<le> n \<and> n \<le> 90) \<or> (192 \<le> n \<and> n \<le> 222 \<and> n \<noteq> 215)
           then (n + 32) mod 256 else n) = m)
         = (n = m \<or> (65 \<le> n \<and> n \<le> 90 \<and> m = n + 32) \<or> (65 \<le> m \<and> m \<le> 90 \<and> n = m + 32))"
  using assms by (auto simp add: mod_if)

lemma toLowerCase_char_code:
  "(of_char (toLowerCase_char c) :: nat) =
     (if (65 \<le> (of_char c :: nat) \<and> (of_char c :: nat) \<le> 90)
         \<or> (192 \<le> (of_char c :: nat) \<and> (of_char c :: nat) \<le> 222 \<and> (of_char c :: nat) \<noteq> 215)
      then (of_char c + 32) mod 256 else of_char c)"
  by (simp add: toLowerCase_char_def Let_def)

lemma toLowerCase_char_plain:
  assumes "plain_char d"
  shows "(toLowerCase_char c = d) = same_letter c d"
proof -
  have "(toLowerCase_char c = d) = ((of_char (toLowerCase_char c) :: nat) = of_char d)"
    by simp
  also have "\<dots> = ((of_char c :: nat) = of_char d
       \<or> (65 \<le> (of_char c :: nat) \<and> (of_char c :: nat) \<le> 90 \<and> (of_char d :: nat) = of_char c + 32)
       \<or> (65 \<le> (of_char d :: nat) \<and> (of_char d :: nat) \<le> 90 \<and> (of_char c :: nat) = of_char d + 32))"
    unfolding toLowerCase_char_code
    using assms by (intro lower_code) (simp_all add: plain_char_def)
  also have "\<dots> = same_letter c d"
    by (simp add: same_letter_def)
  finally show ?thesis .
qed

lemma toLowerCase_plain:
  "list_all plain_char d \<Longrightarrow> (toLowerCase h = d) = equal_ignoring_case h d"
proof (induction h arbitrary: d)
  case Nil
  then show ?case
    by (auto simp add: toLowerCase_def equal_ignoring_case_def)
next
  case (Cons a h)
  show ?case
  proof (cases d)
    case Nil
    then show ?thesis
      by (simp add: toLowerCase_def equal_ignoring_case_def)
  next
    case (Cons x xs)
    with Cons.prems have px: "plain_char x" and pxs: "list_all plain_char xs"
      by simp_all
    from Cons.IH [OF pxs] have "(map toLowerCase_char h = xs) = list_all2 same_letter h xs"
      by (simp add: toLowerCase_def equal_ignoring_case_def)
    with Cons px show ?thesis
      by (simp add: toLowerCase_def equal_ignoring_case_def toLowerCase_char_plain)
  qed
qed

lemma endsWith_plain:
  assumes "list_all plain_char d"
  shows "endsWith (toLowerCase h) (CHR ''.'' # d) = subdomain_of h d"
proof -
  have p: "list_all plain_char (CHR ''.'' # d)"
    using assms by (simp add: plain_char_def)
  have "drop (length h - Suc (length d)) (toLowerCase h) =
          toLowerCase (drop (length h - Suc (length d)) h)"
    by (simp add: toLowerCase_def drop_map)
  then show ?thesis
    using toLowerCase_plain [OF p, of "drop (length h - Suc (length d)) h"]
    by (auto simp add: endsWith_def subdomain_of_def toLowerCase_def)
qed

lemma blocked_on_block_list: "blocked (toLowerCase h) = on_block_list h"
proof -
  have p: "list_all plain_char ''localhost''" "list_all plain_char ''127.0.0.1''"
    "list_all plain_char ''0.0.0.0''"
    by (simp_all add: plain_char_def)
  have e: "endsWith (toLowerCase h) ''.localhost'' = subdomain_of h ''localhost''"
    "endsWith (toLowerCase h) ''.127.0.0.1'' = subdomain_of h ''127.0.0.1''"
    "endsWith (toLowerCase h) ''.0.0.0.0'' = subdomain_of h ''0.0.0.0''"
    using endsWith_plain [OF p(1), of h] endsWith_plain [OF p(2), of h]
      endsWith_plain [OF p(3), of h]
    by simp_all
  show ?thesis
    by (simp add: blocked_def BLOCKED_DOMAINS_def on_block_list_def e
          toLowerCase_plain [OF p(1)] toLowerCase_plain [OF p(2)] toLowerCase_plain [OF p(3)])
qed

subsection \<open>The order of the rules\<close>



lemma validateUrl_length_rules:
  "trim u = [] \<Longrightarrow> error (validateUrl L u) = Some EMPTY_URL"
  "trim u \<noteq> [] \<Longrightarrow> length (trim u) < 10 \<Longrightarrow> error (validateUrl L u) = Some TOO_SHORT"
  "10 \<le> length (trim u) \<Longrightarrow> 2048 < length (trim u) \<Longrightarrow>
     error (validateUrl L u) = Some TOO_LONG"
  by (auto simp add: validateUrl_def Let_def truthy_def MIN_LENGTH_def MAX_LENGTH_def failure_sel)

lemma validateUrl_format_rule:
  "10 \<le> length (trim u) \<Longrightarrow> length (trim u) \<le> 2048 \<Longrightarrow>
   \<not> isURL L (trim u) \<or> new_URL L (trim u) = None \<Longrightarrow>
   error (validateUrl L u) = Some INVALID_FORMAT"
  by (auto simp add: validateUrl_def Let_def truthy_def MIN_LENGTH_def MAX_LENGTH_def failure_sel)

lemma validateUrl_parsed:
  assumes "10 \<le> length (trim u)" "length (trim u) \<le> 2048" "isURL L (trim u)"
      and "new_URL L (trim u) = Some p"
  shows "validateUrl L u =
     (if butlast (protocol p) \<noteq> ''http'' \<and> butlast (protocol p) \<noteq> ''https''
        then failure INVALID_PROTOCOL ''Only HTTP and HTTPS URLs are allowed''
      else if on_block_list (hostname p)
        then failure BLOCKED_DOMAIN ''This domain is not allowed''
      else \<lparr>isValid = True, error = None, message = None, normalizedUrl = Some (href p)\<rparr>)"
  using assms
  by (auto simp add: validateUrl_def Let_def truthy_def MIN_LENGTH_def MAX_LENGTH_def
        ALLOWED_PROTOCOLS_def blocked_on_block_list)

lemma validateUrl_isValid_error: "isValid (validateUrl L u) = (error (validateUrl L u) = None)"
  by (simp add: validateUrl_def Let_def failure_sel split: option.splits)



lemma ws_simps: "\<not> js_whitespace (CHR ''h'')" "\<not> js_whitespace (CHR ''a'')"
  "\<not> js_whitespace (CHR ''{'')" "\<not> js_whitespace (CHR ''B'')"
  by (simp_all add: js_whitespace_def)


subsection \<open>Normalization and the length bounds\<close>

lemma length_concat_replicate: "length (concat (replicate n xs)) = n * length xs"
  by (induction n) simp_all

lemma last_concat_replicate:
  "xs \<noteq> [] \<Longrightarrow> last (concat (replicate (Suc n) xs)) = last xs"
  by (induction n) auto

lemma last_concat_replicate_numeral:
  "xs \<noteq> [] \<Longrightarrow> last (concat (replicate (numeral k) xs)) = last xs"
  using last_concat_replicate [of xs "pred_numeral k"] by (simp add: numeral_eq_Suc)

lemma long_url_facts:
  "trim long_url = long_url" "length long_url = 2048" "long_url \<noteq> []"
  by (simp_all add: trim_id long_url_def ws_simps)

lemma long_url_normalized_facts:
  "trim long_url_normalized = long_url_normalized" "length long_url_normalized = 6120"
  "long_url_normalized \<noteq> []"
  by (simp_all add: trim_id long_url_normalized_def ws_simps length_concat_replicate
        last_concat_replicate_numeral)

lemma validateUrl_long_url:
  "validateUrl long_lib long_url =
     \<lparr>isValid = True, error = None, message = None,
      normalizedUrl = Some long_url_normalized\<rparr>"
  by (simp add: validateUrl_def long_url_facts truthy_def MIN_LENGTH_def MAX_LENGTH_def
        long_lib_def lib_of_def ALLOWED_PROTOCOLS_def blocked_def BLOCKED_DOMAINS_def
        toLowerCase_def toLowerCase_char_def endsWith_def)

lemma validateUrl_long_url_normalized:
  "validateUrl long_lib long_url_normalized =
     failure TOO_LONG ''URL must be less than 2048 characters long''"
  by (simp add: validateUrl_def long_url_normalized_facts truthy_def MIN_LENGTH_def MAX_LENGTH_def)

text \<open>
  Counterexample to C5 as stated. The URL \<open>long_url\<close> has 2048 characters and is
  valid; its normalized form has 6120 characters, and validating that form fails
  with TOO_LONG.
\<close>

theorem validateUrl_not_idempotent:
  "isValid (validateUrl long_lib long_url)
   \<and> normalizedUrl (validateUrl long_lib long_url) = Some long_url_normalized
   \<and> \<not> isValid (validateUrl long_lib long_url_normalized)
   \<and> error (validateUrl long_lib long_url_normalized) = Some TOO_LONG"
  by (simp add: validateUrl_long_url validateUrl_long_url_normalized failure_def)

lemma validateUrl_valid_rules:
  "error (validateUrl L u) = None \<Longrightarrow>
   10 \<le> length (trim u) \<and> length (trim u) \<le> 2048
   \<and> isURL L (trim u) \<and> new_URL L (trim u) \<noteq> None"
  by (auto simp add: validateUrl_def Let_def truthy_def MIN_LENGTH_def MAX_LENGTH_def
        failure_sel split: if_splits option.splits)

lemma validateUrl_success:
  assumes "isValid (validateUrl L u)"
  obtains p where "new_URL L (trim u) = Some p" "normalizedUrl (validateUrl L u) = Some (href p)"
    "butlast (protocol p) = ''http'' \<or> butlast (protocol p) = ''https''"
    "\<not> on_block_list (hostname p)"
proof -
  from assms have e: "error (validateUrl L u) = None"
    by (simp add: validateUrl_isValid_error)
  have l: "10 \<le> length (trim u)" "length (trim u) \<le> 2048"
    and f: "isURL L (trim u)" "new_URL L (trim u) \<noteq> None"
    using validateUrl_valid_rules [OF e] by simp_all
  then obtain p where p: "new_URL L (trim u) = Some p"
    by auto
  from validateUrl_parsed [OF l f(1) p] e show ?thesis
    by (intro that [of p]) (auto simp add: p failure_sel split: if_splits)
qed

text \<open>
  C5, amended. Assume of the URL parser that parsing one of its own serializations
  gives the URL that was serialized, and that a serialization has no white space at
  its ends. Let \<open>validateUrl\<close> succeed on \<open>u\<close> with the normalized URL \<open>u'\<close>. Then
  \<open>validateUrl\<close> on \<open>u'\<close> never returns another string: it succeeds, and returns \<open>u'\<close>
  unchanged, exactly when \<open>u'\<close> has between 10 and 2048 characters and \<open>isURL\<close>
  accepts it; otherwise it fails with the error of the length or format rule that
  \<open>u'\<close> breaks. The normalized string is returned without being checked, and it can
  be longer than the input.
\<close>

theorem validateUrl_idempotent_where_accepted:
  assumes round_trip: "\<And>s p. new_URL L s = Some p \<Longrightarrow> new_URL L (href p) = Some p"
      and no_space: "\<And>s p. new_URL L s = Some p \<Longrightarrow> trim (href p) = href p"
      and valid: "isValid (validateUrl L u)"
      and normalized: "normalizedUrl (validateUrl L u) = Some u'"
  shows "error (validateUrl L u') =
           (if u' = [] then Some EMPTY_URL
            else if length u' < 10 then Some TOO_SHORT
            else if 2048 < length u' then Some TOO_LONG
            else if \<not> isURL L u' then Some INVALID_FORMAT
            else None)
         \<and> isValid (validateUrl L u') = (10 \<le> length u' \<and> length u' \<le> 2048 \<and> isURL L u')
         \<and> normalizedUrl (validateUrl L u') =
             (if 10 \<le> length u' \<and> length u' \<le> 2048 \<and> isURL L u' then Some u' else None)"
proof -
  from valid obtain p where p: "new_URL L (trim u) = Some p"
      "normalizedUrl (validateUrl L u) = Some (href p)"
      "butlast (protocol p) = ''http'' \<or> butlast (protocol p) = ''https''"
      "\<not> on_block_list (hostname p)"
    by (rule validateUrl_success)
  with normalized have u': "u' = href p"
    by simp
  have t: "trim u' = u'"
    using no_space [OF p(1)] u' by simp
  have r: "new_URL L u' = Some p"
    using round_trip [OF p(1)] u' by simp
  show ?thesis
  proof (cases "10 \<le> length u' \<and> length u' \<le> 2048 \<and> isURL L u'")
    case True
    then have "validateUrl L u' =
        \<lparr>isValid = True, error = None, message = None, normalizedUrl = Some (href p)\<rparr>"
      using validateUrl_parsed [of u' L p] t r p(3) p(4) by auto
    with True u' show ?thesis
      by auto
  next
    case False
    then have "error (validateUrl L u') =
           (if u' = [] then Some EMPTY_URL
            else if length u' < 10 then Some TOO_SHORT
            else if 2048 < length u' then Some TOO_LONG
            else Some INVALID_FORMAT)"
      using validateUrl_length_rules [of u' L] validateUrl_format_rule [of u' L] t
      by (auto simp add: not_le not_less)
    with False show ?thesis
      by (auto simp add: validateUrl_isValid_error validateUrl_def Let_def failure_sel t
            truthy_def MIN_LENGTH_def MAX_LENGTH_def)
  qed
qed

theorem validateUrl_idempotent_where_accepted_witness:
  "isValid (validateUrl round_trip_lib '' HTTPS://EXAMPLE.COM/a '')
   \<and> normalizedUrl (validateUrl round_trip_lib '' HTTPS://EXAMPLE.COM/a '') =
       Some ''https://example.com/a''
   \<and> 10 \<le> length ''https://example.com/a''
   \<and> length ''https://example.com/a'' \<le> 2048
   \<and> isURL round_trip_lib ''https://example.com/a''
   \<and> error (validateUrl round_trip_lib ''https://example.com/a'') = None
   \<and> isValid (validateUrl round_trip_lib ''https://example.com/a'')
   \<and> normalizedUrl (validateUrl round_trip_lib ''https://example.com/a'') =
       Some ''https://example.com/a''"
proof -
  have t: "trim '' HTTPS://EXAMPLE.COM/a '' = ''HTTPS://EXAMPLE.COM/a''"
    "trim ''https://example.com/a'' = ''https://example.com/a''"
    by (simp_all add: trim_def js_whitespace_def)
  have rt: "new_URL round_trip_lib (href p) = Some p"
    if "new_URL round_trip_lib s = Some p" for s p
    using that by (auto simp add: round_trip_lib_def lib_of_def split: if_splits)
  have ns: "trim (href p) = href p" if "new_URL round_trip_lib s = Some p" for s p
    using that by (auto simp add: round_trip_lib_def lib_of_def t split: if_splits)
  have v: "validateUrl round_trip_lib '' HTTPS://EXAMPLE.COM/a '' =
             \<lparr>isValid = True, error = None, message = None,
              normalizedUrl = Some ''https://example.com/a''\<rparr>"
    by (simp add: validateUrl_def t truthy_def MIN_LENGTH_def MAX_LENGTH_def
          round_trip_lib_def lib_of_def ALLOWED_PROTOCOLS_def blocked_def BLOCKED_DOMAINS_def
          toLowerCase_def toLowerCase_char_def endsWith_def)
  have a: "isURL round_trip_lib ''https://example.com/a''"
    by (simp add: round_trip_lib_def lib_of_def)
  show ?thesis
    using validateUrl_idempotent_where_accepted
            [of round_trip_lib "'' HTTPS://EXAMPLE.COM/a ''" "''https://example.com/a''",
             OF rt ns] v a
    by simp
qed

section \<open>The local adapter\<close>

lemma save_result:
  "LocalJSONAdapter_save c r f =
     (if writable f then (Inr (), f\<lparr>urls_json := Some (js_assign (readData f) c r)\<rparr>)
      else (Inl FsError, f))"
  by (simp add: LocalJSONAdapter_save_def writeData_def)

lemma readData_after_save:
  "readData (snd (LocalJSONAdapter_save c r f)) =
     (if writable f then js_assign (readData f) c r else readData f)"
  by (simp add: save_result readData_def)

lemma save_frame:
  "c' \<noteq> c \<Longrightarrow> readData (snd (LocalJSONAdapter_save c r f)) c' = readData f c'"
  by (simp add: readData_after_save js_assign_def)

lemma run_saves_frame:
  "c \<notin> set (map fst ops) \<Longrightarrow> readData (run_saves ops f) c = readData f c"
proof (induction ops arbitrary: f)
  case Nil
  then show ?case by simp
next
  case (Cons op ops)
  obtain c' d where op: "op = (c', d)" by (cases op)
  with Cons.prems have "c' \<noteq> c" "c \<notin> set (map fst ops)" by auto
  with Cons.IH [of "snd (LocalJSONAdapter_save c' d f)"] op show ?case
    by (simp add: save_frame)
qed

text \<open>
  A lookup in a plain object also finds the names every object inherits. None of
  them has six characters, so no code is one of them.
\<close>

lemma LocalJSONAdapter_inherited_names:
  "fst (LocalJSONAdapter_exists ''constructor'' empty_fs) = Inr True"
  "fst (LocalJSONAdapter_get ''constructor'' empty_fs) = Inr (Inherited ''constructor'')"
  by (simp_all add: LocalJSONAdapter_exists_def LocalJSONAdapter_get_def readData_def
        empty_fs_def js_in_def js_member_or_null_def Object_prototype_names_def)

lemma LocalJSONAdapter_own_names:
  assumes np: "code \<notin> set Object_prototype_names"
  shows "fst (LocalJSONAdapter_save code r f) = Inr ()
      \<longrightarrow> fst (LocalJSONAdapter_get code (snd (LocalJSONAdapter_save code r f))) =
            Inr (Data r)"
    and "readData f code = None \<and> code \<notin> set (map fst ops)
      \<longrightarrow> fst (LocalJSONAdapter_get code (run_saves ops f)) = Inr Null
          \<and> fst (LocalJSONAdapter_exists code (run_saves ops f)) = Inr False"
proof -
  have "code \<noteq> ''__proto__''"
    using np by (auto simp: Object_prototype_names_def)
  have ok: "fst (LocalJSONAdapter_save code r f) = Inr () \<Longrightarrow> writable f"
    by (simp add: save_result split: if_splits)
  show "fst (LocalJSONAdapter_save code r f) = Inr ()
      \<longrightarrow> fst (LocalJSONAdapter_get code (snd (LocalJSONAdapter_save code r f))) = Inr (Data r)"
    using ok \<open>code \<noteq> ''__proto__''\<close>
    by (auto simp add: LocalJSONAdapter_get_def readData_after_save js_assign_def
          js_member_or_null_def)
  show "readData f code = None \<and> code \<notin> set (map fst ops)
      \<longrightarrow> fst (LocalJSONAdapter_get code (run_saves ops f)) = Inr Null
          \<and> fst (LocalJSONAdapter_exists code (run_saves ops f)) = Inr False"
    using np run_saves_frame [of code ops f]
    by (simp add: LocalJSONAdapter_get_def LocalJSONAdapter_exists_def js_member_or_null_def
          js_in_def)
qed

text \<open>
  C6. On the local adapter, for every code (a string of \<open>CODE_LENGTH\<close> = 6
  characters): after a \<open>save(code, r)\<close> that succeeded, \<open>get(code)\<close> returns the record
  \<open>r\<close>, so a record with the url of \<open>r\<close>; and when the code is not in the file and
  no \<open>save\<close> of a history \<open>ops\<close> was for it, \<open>get(code)\<close> returns \<open>null\<close> and
  \<open>exists(code)\<close> returns false after that history.
\<close>

theorem LocalJSONAdapter_round_trip:
  "length code = CODE_LENGTH \<Longrightarrow>
   (fst (LocalJSONAdapter_save code r f) = Inr ()
      \<longrightarrow> fst (LocalJSONAdapter_get code (snd (LocalJSONAdapter_save code r f))) =
            Inr (Data r)
          \<and> (\<exists>d. fst (LocalJSONAdapter_get code (snd (LocalJSONAdapter_save code r f))) =
                   Inr (Data d) \<and> url d = url r))
   \<and> (readData f code = None \<and> code \<notin> set (map fst ops)
      \<longrightarrow> fst (LocalJSONAdapter_get code (run_saves ops f)) = Inr Null
          \<and> fst (LocalJSONAdapter_exists code (run_saves ops f)) = Inr False)"
proof -
  assume "length code = CODE_LENGTH"
  then have np: "code \<notin> set Object_prototype_names"
    by (rule not_prototype_name)
  from LocalJSONAdapter_own_names(1) [OF np, of r f]
    LocalJSONAdapter_own_names(2) [OF np, of f ops]
  show ?thesis
    by simp
qed

theorem LocalJSONAdapter_round_trip_witness:
  "length ''abc123'' = CODE_LENGTH
   \<and> fst (LocalJSONAdapter_save ''abc123'' record_a empty_fs) = Inr ()
   \<and> fst (LocalJSONAdapter_get ''abc123''
             (snd (LocalJSONAdapter_save ''abc123'' record_a empty_fs))) = Inr (Data record_a)
   \<and> readData empty_fs ''abc123'' = None
   \<and> ''abc123'' \<notin> set (map fst [(''zzzzzz'', record_a), (''AbCd12'', blank_record)])
   \<and> fst (LocalJSONAdapter_get ''abc123''
             (run_saves [(''zzzzzz'', record_a), (''AbCd12'', blank_record)] empty_fs)) = Inr Null
   \<and> fst (LocalJSONAdapter_exists ''abc123''
             (run_saves [(''zzzzzz'', record_a), (''AbCd12'', blank_record)] empty_fs)) =
       Inr False"
proof -
  have len: "length ''abc123'' = CODE_LENGTH"
    by (simp add: CODE_LENGTH_def)
  have ok: "fst (LocalJSONAdapter_save ''abc123'' record_a empty_fs) = Inr ()"
    by (simp add: save_result empty_fs_def)
  have none: "readData empty_fs ''abc123'' = None"
    by (simp add: readData_def empty_fs_def)
  show ?thesis
    using LocalJSONAdapter_round_trip
            [OF len, of record_a empty_fs "[(''zzzzzz'', record_a), (''AbCd12'', blank_record)]"]
      len ok none
    by simp
qed

text \<open>
  C10. On the local adapter \<open>save(c, r)\<close> leaves every other code \<open>c'\<close> as it was:
  its entry, and what \<open>get\<close> and \<open>exists\<close> answer for it. When \<open>c\<close> already has a
  record and the file can be written, \<open>save\<close> succeeds and \<open>r\<close> replaces that record.
  Whether \<open>save\<close> succeeds depends on the file system only, never on the entries.
\<close>

theorem LocalJSONAdapter_save_frame_overwrite:
  "(c' \<noteq> c \<longrightarrow>
      readData (snd (LocalJSONAdapter_save c r f)) c' = readData f c'
      \<and> fst (LocalJSONAdapter_get c' (snd (LocalJSONAdapter_save c r f))) =
          fst (LocalJSONAdapter_get c' f)
      \<and> fst (LocalJSONAdapter_exists c' (snd (LocalJSONAdapter_save c r f))) =
          fst (LocalJSONAdapter_exists c' f))
   \<and> (readData f c = Some old \<and> writable f \<longrightarrow>
      fst (LocalJSONAdapter_save c r f) = Inr ()
      \<and> readData (snd (LocalJSONAdapter_save c r f)) c = Some r
      \<and> fst (LocalJSONAdapter_get c (snd (LocalJSONAdapter_save c r f))) = Inr (Data r))
   \<and> fst (LocalJSONAdapter_save c r f) = (if writable f then Inr () else Inl FsError)"
  by (simp add: save_frame LocalJSONAdapter_get_def LocalJSONAdapter_exists_def
        js_member_or_null_def js_in_def)
     (simp add: save_result readData_def js_assign_def)

theorem LocalJSONAdapter_save_frame_overwrite_witness:
  "readData (snd (LocalJSONAdapter_save ''abc123'' record_a fs_busy4)) ''useand'' =
     readData fs_busy4 ''useand''
   \<and> readData fs_busy4 ''useand'' = Some record_a
   \<and> writable fs_busy4
   \<and> fst (LocalJSONAdapter_save ''useand'' blank_record fs_busy4) = Inr ()
   \<and> readData (snd (LocalJSONAdapter_save ''useand'' blank_record fs_busy4)) ''useand'' =
       Some blank_record"
proof -
  have r: "readData fs_busy4 ''useand'' = Some record_a" "writable fs_busy4"
    by (simp_all add: readData_def fs_busy4_def)
  show ?thesis
    using LocalJSONAdapter_save_frame_overwrite
            [of "''useand''" "''abc123''" record_a fs_busy4]
      LocalJSONAdapter_save_frame_overwrite
            [of _ "''useand''" blank_record fs_busy4 record_a] r
    by simp
qed

section \<open>Lookup and the redirect page\<close>

lemma storage_get_pure: "snd (storage_get c s) = s"
  by (cases s) (simp_all add: LocalJSONAdapter_get_def VercelKVAdapter_get_def Let_def)

lemma getUrl_eq:
  "getUrl c w =
     (case fst (storage_get c (store w)) of
        Inl e \<Rightarrow> Inl e
      | Inr data \<Rightarrow> Inr (url_or_null data),
      w\<lparr>events := events w @ [StorageGet c]\<rparr>)"
  using storage_get_pure [of c "store w"]
  by (cases "storage_get c (store w)") (simp add: getUrl_def split: sum.splits)

lemma valid_abc123: "isValidCodeFormat ''abc123''" "isValidCodeFormat ''zzzzzz''"
  "\<not> isValidCodeFormat ''ab''"
  by (simp_all add: isValidCodeFormat_def CODE_LENGTH_def ALPHABET_def)

lemma get_blank: "fst (storage_get ''abc123'' (store w_blank)) = Inr (Data blank_record)"
  by (simp add: w_blank_def world_of_def LocalJSONAdapter_get_def readData_def
        js_member_or_null_def)

lemma get_stored: "fst (storage_get ''abc123'' (store w_stored)) = Inr (Data record_a)"
  "fst (storage_get ''zzzzzz'' (store w_stored)) = Inr Null"
  by (simp_all add: w_stored_def world_of_def LocalJSONAdapter_get_def readData_def
        js_member_or_null_def Object_prototype_names_def)

lemma get_offline: "fst (storage_get ''abc123'' (store w_offline)) = Inl KVError"
  by (simp add: w_offline_def world_of_def VercelKVAdapter_get_def)

text \<open>
  C9. When the stored record of a code has the empty string as its url, \<open>getUrl\<close>
  returns \<open>null\<close>, which is also what it returns for a code that has no record; a
  record with a non-empty url gives that url.
\<close>

theorem getUrl_empty_url_is_absent:
  "(fst (storage_get code (store w)) = Inr (Data d) \<and> url d = []
      \<longrightarrow> fst (getUrl code w) = Inr None)
   \<and> (fst (storage_get code (store w)) = Inr Null \<longrightarrow> fst (getUrl code w) = Inr None)
   \<and> (fst (storage_get code (store w)) = Inr (Data d) \<and> url d \<noteq> []
      \<longrightarrow> fst (getUrl code w) = Inr (Some (url d)))"
  by (simp add: getUrl_eq truthy_def)

theorem getUrl_empty_url_is_absent_witness:
  "fst (storage_get ''abc123'' (store w_blank)) = Inr (Data blank_record)
   \<and> url blank_record = []
   \<and> fst (getUrl ''abc123'' w_blank) = Inr None
   \<and> fst (storage_get ''zzzzzz'' (store w_stored)) = Inr Null
   \<and> fst (getUrl ''zzzzzz'' w_stored) = Inr None
   \<and> fst (getUrl ''abc123'' w_stored) = Inr (Some ''https://example.com/a'')"
  using getUrl_empty_url_is_absent [of "''abc123''" w_blank blank_record]
    getUrl_empty_url_is_absent [of "''zzzzzz''" w_stored]
    getUrl_empty_url_is_absent [of "''abc123''" w_stored record_a]
  by (simp add: get_blank get_stored record_a_def blank_record_def)

lemma storage_get_error: "fst (storage_get c s) = Inl e \<Longrightarrow> e = KVError"
  by (cases s)
     (simp_all add: LocalJSONAdapter_get_def VercelKVAdapter_get_def Let_def split: if_splits)

lemma url_or_null_truthy: "url_or_null x = Some u \<Longrightarrow> truthy u"
  by (cases x) (simp_all split: if_splits)

lemma RedirectPage_eq:
  "RedirectPage code w =
     (if \<not> isValidCodeFormat code then (NEXT_NOT_FOUND, w)
      else case fst (getUrl code w) of
             Inr (Some u) \<Rightarrow> (NEXT_REDIRECT ''replace'' u 307, snd (getUrl code w))
           | other \<Rightarrow>
               (NEXT_NOT_FOUND,
                console_error (''Error redirecting code '' @ code @ '':'')
                  (snd (getUrl code w))))"
  by (auto simp add: RedirectPage_def RedirectPage_try_def getUrl_eq notFound_def redirect_def
        dest: storage_get_error url_or_null_truthy
        split: sum.splits option.splits)

text \<open>
  What the page does, case by case: not-found without touching the world for a
  malformed code; for a well-formed code one \<open>get\<close>, then not-found when \<open>get\<close>
  returns \<open>null\<close> or throws, and the redirect to the stored url, with status 307,
  when \<open>get\<close> returns a record with a url; and never a write.
\<close>

lemma RedirectPage_outcomes:
  "(\<not> isValidCodeFormat code \<longrightarrow> RedirectPage code w = (NEXT_NOT_FOUND, w))
   \<and> (isValidCodeFormat code \<and> fst (storage_get code (store w)) = Inr Null
        \<longrightarrow> fst (RedirectPage code w) = NEXT_NOT_FOUND)
   \<and> (isValidCodeFormat code \<and> fst (storage_get code (store w)) = Inl e
        \<longrightarrow> fst (RedirectPage code w) = NEXT_NOT_FOUND)
   \<and> (isValidCodeFormat code \<and> fst (storage_get code (store w)) = Inr (Data d)
        \<and> url d \<noteq> []
        \<longrightarrow> fst (RedirectPage code w) = NEXT_REDIRECT ''replace'' (url d) 307)
   \<and> store (snd (RedirectPage code w)) = store w
   \<and> filter is_storage_write (new_events w (snd (RedirectPage code w))) = []
   \<and> (isValidCodeFormat code
        \<longrightarrow> filter is_storage_call (new_events w (snd (RedirectPage code w))) =
              [StorageGet code])"
  by (simp add: RedirectPage_eq getUrl_eq truthy_def new_events_def console_error_def
      split: sum.splits option.splits fetched.splits)

text \<open>
  C7. The not-found cases and the absence of writes hold, but the redirect is not
  permanent. For the well-formed code abc123, whose stored record has the url
  \<open>https://example.com/a\<close>, the page throws what \<open>redirect(url)\<close> throws: the redirect
  to that url with status 307, the temporary redirect, and neither 301 nor 308. The
  comment in the source says \<open>Perform 301 redirect\<close>.
\<close>

theorem RedirectPage_redirect_is_temporary:
  "isValidCodeFormat ''abc123''
   \<and> fst (storage_get ''abc123'' (store w_stored)) = Inr (Data record_a)
   \<and> url record_a = ''https://example.com/a''
   \<and> fst (RedirectPage ''abc123'' w_stored) =
       NEXT_REDIRECT ''replace'' ''https://example.com/a'' 307
   \<and> fst (RedirectPage ''abc123'' w_stored) \<noteq>
       NEXT_REDIRECT ''replace'' ''https://example.com/a'' 301
   \<and> fst (RedirectPage ''abc123'' w_stored) \<noteq>
       NEXT_REDIRECT ''replace'' ''https://example.com/a'' 308"
  by (simp add: RedirectPage_eq getUrl_eq valid_abc123 get_stored record_a_def truthy_def)

section \<open>The error codes of the creation endpoint\<close>

lemma errorCodeMap_route: "(errorCodeMap e, 400) \<in> set route_codes"
  by (cases e) (simp_all add: errorCodeMap_def route_codes_def)

lemma POST_shorten_codes:
  "failure_code (fst (POST_shorten L app_url req n w)) = Some cs \<Longrightarrow>
   cs = (''CODE_GENERATION_FAILED'', 500) \<or> cs = (''STORAGE_ERROR'', 500)"
  by (auto simp add: POST_shorten_def json_response_def Let_def
      split: prod.splits sum.splits)

lemma POST_codes:
  "failure_code (fst (POST L app_url req w)) = Some cs \<Longrightarrow> cs \<in> set route_codes"
proof (cases "json_body req")
  case None
  assume "failure_code (fst (POST L app_url req w)) = Some cs"
  with None show ?thesis
    by (auto simp add: POST_def json_response_def route_codes_def)
next
  case (Some body)
  assume f: "failure_code (fst (POST L app_url req w)) = Some cs"
  show ?thesis
  proof (cases "body_url body")
    case (Inl e)
    with Some f show ?thesis
      by (auto simp add: POST_def json_response_def route_codes_def)
  next
    case (Inr v)
    show ?thesis
    proof (cases "\<exists>u. v = Some (JStr u) \<and> truthy u")
      case False
      with Some Inr f show ?thesis
        by (auto simp add: POST_def json_response_def route_codes_def
            split: option.splits json.splits)
    next
      case True
      then obtain u where u: "v = Some (JStr u)" "truthy u" by blast
      show ?thesis
      proof (cases "isValid (validateUrl L u)")
        case False
        with Some Inr u f have "cs = (errorCodeMap (the (error (validateUrl L u))), 400)"
          by (auto simp add: POST_def json_response_def Let_def)
        then show ?thesis by (simp add: errorCodeMap_route)
      next
        case True
        with Some Inr u f have
          "failure_code (fst (POST_shorten L app_url req
              (the (normalizedUrl (validateUrl L u))) w)) = Some cs"
          by (simp add: POST_def Let_def)
        from POST_shorten_codes [OF this] show ?thesis
          by (auto simp add: route_codes_def)
      qed
    qed
  qed
qed

lemma validateUrl_error_invalid:
  "error (validateUrl L u) = Some e \<Longrightarrow> \<not> isValid (validateUrl L u)"
  by (auto simp add: validateUrl_def Let_def failure_sel
      split: if_splits option.splits)

lemma validateUrl_error_truthy:
  "error (validateUrl L u) = Some e \<Longrightarrow> e \<noteq> EMPTY_URL \<Longrightarrow> truthy u"
  by (auto simp add: validateUrl_def Let_def failure_sel truthy_def trim_def
      split: if_splits option.splits)

lemma POST_validation_code:
  "json_body req = Some (JObj [(''url'', JStr u)]) \<Longrightarrow> error (validateUrl L u) = Some e \<Longrightarrow>
   e \<noteq> EMPTY_URL \<Longrightarrow>
   failure_code (fst (POST L app_url req w)) = Some (errorCodeMap e, 400)"
  using validateUrl_error_invalid [of L u e] validateUrl_error_truthy [of L u e]
  by (simp add: POST_def json_response_def Let_def)

lemma middleware_json:
  "middleware ratelimit_limit req = (NextResponse_json st c m hs, evs) \<Longrightarrow>
   st = 429 \<and> c = ''RATE_LIMIT_EXCEEDED'' \<and> evs = []
   \<and> startsWith (nextUrl_pathname req) ''/api/''
   \<and> (\<exists>r. ratelimit_limit (client_ip req) = Inr r \<and> \<not> success r
          \<and> hs = [(''X-RateLimit-Limit'', Number_toString (limit r)),
                  (''X-RateLimit-Remaining'', Number_toString (remaining r)),
                  (''X-RateLimit-Reset'', Date_toISOString (reset r))])"
  by (auto simp add: middleware_def rate_limit_headers_def toISOString_def Let_def
      split: if_splits sum.splits)

text \<open>
  Counterexample to C3 as stated. A URL that is too short is answered with the code
  URL_TOO_SHORT and one that \<open>isURL\<close> rejects with INVALID_URL_FORMAT; neither code is
  in the taxonomy of the specification.
\<close>

theorem POST_too_short_code_outside_taxonomy:
  "error (validateUrl example_lib ''http://a'') = Some TOO_SHORT
   \<and> failure_code (fst (POST example_lib None
        (request_of (Some (JObj [(''url'', JStr ''http://a'')]))) w_dash)) =
       Some (''URL_TOO_SHORT'', 400)
   \<and> ''URL_TOO_SHORT'' \<notin> set (map fst code_taxonomy)
   \<and> error (validateUrl example_lib ''not a valid url'') = Some INVALID_FORMAT
   \<and> failure_code (fst (POST example_lib None
        (request_of (Some (JObj [(''url'', JStr ''not a valid url'')]))) w_dash)) =
       Some (''INVALID_URL_FORMAT'', 400)
   \<and> ''INVALID_URL_FORMAT'' \<notin> set (map fst code_taxonomy)"
proof -
  have t: "trim ''http://a'' = ''http://a''" "trim ''not a valid url'' = ''not a valid url''"
    by (simp_all add: trim_def js_whitespace_def)
  have v: "validateUrl example_lib ''http://a'' =
             failure TOO_SHORT ''URL must be at least 10 characters long''"
    "validateUrl example_lib ''not a valid url'' =
             failure INVALID_FORMAT ''Please enter a valid URL starting with http:// or https://''"
    by (simp_all add: validateUrl_def t truthy_def MIN_LENGTH_def MAX_LENGTH_def
          example_lib_def lib_of_def)
  show ?thesis
    by (simp add: POST_def Let_def request_of_def v failure_sel truthy_def json_response_def
          errorCodeMap_def code_taxonomy_def)
qed

text \<open>
  C3, amended. Every failure response of \<open>POST\<close> carries one of the codes
  INVALID_JSON, MISSING_URL, EMPTY_URL, URL_TOO_SHORT, URL_TOO_LONG,
  INVALID_URL_FORMAT, INVALID_PROTOCOL, BLOCKED_DOMAIN with status 400, or
  CODE_GENERATION_FAILED, STORAGE_ERROR, INTERNAL_ERROR with status 500. A too-short
  URL yields URL_TOO_SHORT and a string that fails the format rule yields
  INVALID_URL_FORMAT. The only JSON response of the middleware is
  RATE_LIMIT_EXCEEDED with status 429.
\<close>

theorem POST_failure_codes:
  "(failure_code (fst (POST L app_url req w)) = Some cs \<longrightarrow> cs \<in> set route_codes)
   \<and> (json_body req = Some (JObj [(''url'', JStr u)])
        \<and> error (validateUrl L u) = Some TOO_SHORT
      \<longrightarrow> failure_code (fst (POST L app_url req w)) = Some (''URL_TOO_SHORT'', 400))
   \<and> (json_body req = Some (JObj [(''url'', JStr u)])
        \<and> error (validateUrl L u) = Some INVALID_FORMAT
      \<longrightarrow> failure_code (fst (POST L app_url req w)) = Some (''INVALID_URL_FORMAT'', 400))
   \<and> (middleware ratelimit_limit req = (NextResponse_json st c m hs, evs)
      \<longrightarrow> (c, st) = (''RATE_LIMIT_EXCEEDED'', 429))"
  using POST_codes [of L app_url req w cs]
    POST_validation_code [of req u L TOO_SHORT app_url w]
    POST_validation_code [of req u L INVALID_FORMAT app_url w]
    middleware_json [of ratelimit_limit req st c m hs evs]
  by (simp add: errorCodeMap_def)

theorem POST_failure_codes_witness:
  "failure_code (fst (POST example_lib None (request_of None) w_dash)) =
     Some (''INVALID_JSON'', 400)
   \<and> (''INVALID_JSON'', 400) \<in> set route_codes
   \<and> error (validateUrl example_lib ''http://a'') = Some TOO_SHORT
   \<and> failure_code (fst (POST example_lib None
        (request_of (Some (JObj [(''url'', JStr ''http://a'')]))) w_dash)) =
       Some (''URL_TOO_SHORT'', 400)
   \<and> error (validateUrl example_lib ''not a valid url'') = Some INVALID_FORMAT
   \<and> failure_code (fst (POST example_lib None
        (request_of (Some (JObj [(''url'', JStr ''not a valid url'')]))) w_dash)) =
       Some (''INVALID_URL_FORMAT'', 400)
   \<and> middleware limiter_exceeded (request_of None) =
       (NextResponse_json 429 ''RATE_LIMIT_EXCEEDED''
          ''Too many requests. Please try again later.''
          [(''X-RateLimit-Limit'', Number_toString 20),
           (''X-RateLimit-Remaining'', Number_toString 0),
           (''X-RateLimit-Reset'', Date_toISOString 1704067260000)], [])"
proof -
  have t: "trim ''http://a'' = ''http://a''" "trim ''not a valid url'' = ''not a valid url''"
    by (simp_all add: trim_def js_whitespace_def)
  have v: "error (validateUrl example_lib ''http://a'') = Some TOO_SHORT"
    "error (validateUrl example_lib ''not a valid url'') = Some INVALID_FORMAT"
    by (simp_all add: validateUrl_def t truthy_def MIN_LENGTH_def MAX_LENGTH_def
          example_lib_def lib_of_def failure_sel)
  have j: "failure_code (fst (POST example_lib None (request_of None) w_dash)) =
             Some (''INVALID_JSON'', 400)"
    by (simp add: POST_def request_of_def json_response_def)
  have b: "json_body (request_of (Some (JObj [(''url'', JStr x)]))) =
             Some (JObj [(''url'', JStr x)])" for x
    by (simp add: request_of_def)
  have m: "middleware limiter_exceeded (request_of None) =
       (NextResponse_json 429 ''RATE_LIMIT_EXCEEDED''
          ''Too many requests. Please try again later.''
          [(''X-RateLimit-Limit'', Number_toString 20),
           (''X-RateLimit-Remaining'', Number_toString 0),
           (''X-RateLimit-Reset'', Date_toISOString 1704067260000)], [])"
    by (simp add: middleware_def request_of_def startsWith_def client_ip_def
          limiter_exceeded_def rate_limit_headers_def toISOString_def)
  have a1: "(''INVALID_JSON'', 400) \<in> set route_codes"
    using POST_failure_codes [of example_lib None "request_of None" w_dash
            "(''INVALID_JSON'', 400)", THEN conjunct1] j
    by simp
  have a2: "failure_code (fst (POST example_lib None
        (request_of (Some (JObj [(''url'', JStr ''http://a'')]))) w_dash)) =
       Some (''URL_TOO_SHORT'', 400)"
    using POST_failure_codes [of example_lib None
            "request_of (Some (JObj [(''url'', JStr ''http://a'')]))" w_dash _ "''http://a''",
            THEN conjunct2, THEN conjunct1] v(1) b
    by simp
  have a3: "failure_code (fst (POST example_lib None
        (request_of (Some (JObj [(''url'', JStr ''not a valid url'')]))) w_dash)) =
       Some (''INVALID_URL_FORMAT'', 400)"
    using POST_failure_codes [of example_lib None
            "request_of (Some (JObj [(''url'', JStr ''not a valid url'')]))" w_dash _
            "''not a valid url''", THEN conjunct2, THEN conjunct2, THEN conjunct1] v(2) b
    by simp
  from j a1 v a2 a3 m show ?thesis
    by blast
qed

section \<open>The middleware fails open\<close>

text \<open>
  C8. When the limiter backend throws on a request to an \<open>/api/\<close> path, the
  middleware lets the request through with \<open>NextResponse.next()\<close> and no header, and
  logs the error. It answers with a JSON response only with status 429 and the code
  RATE_LIMIT_EXCEEDED, and only when the backend answered, its answer says the
  limit is exceeded, and the three X-RateLimit headers are set from that answer.
\<close>

theorem middleware_fails_open:
  "(startsWith (nextUrl_pathname req) ''/api/'' \<and> ratelimit_limit (client_ip req) = Inl e
      \<longrightarrow> middleware ratelimit_limit req =
            (NextResponse_next [], [ConsoleError ''Rate limiting error:'']))
   \<and> (middleware ratelimit_limit req = (NextResponse_json st c m hs, evs)
      \<longrightarrow> st = 429 \<and> c = ''RATE_LIMIT_EXCEEDED'' \<and> evs = []
          \<and> startsWith (nextUrl_pathname req) ''/api/''
          \<and> (\<exists>r. ratelimit_limit (client_ip req) = Inr r \<and> \<not> success r
                 \<and> hs = [(''X-RateLimit-Limit'', Number_toString (limit r)),
                         (''X-RateLimit-Remaining'', Number_toString (remaining r)),
                         (''X-RateLimit-Reset'', Date_toISOString (reset r))]))
   \<and> (startsWith (nextUrl_pathname req) ''/api/'' \<and> ratelimit_limit (client_ip req) = Inr r'
        \<and> \<not> success r' \<and> \<bar>reset r'\<bar> \<le> 8640000000000000
      \<longrightarrow> (\<exists>h. middleware ratelimit_limit req =
                 (NextResponse_json 429 ''RATE_LIMIT_EXCEEDED''
                    ''Too many requests. Please try again later.'' h, [])))"
proof -
  have open': "startsWith (nextUrl_pathname req) ''/api/''
        \<and> ratelimit_limit (client_ip req) = Inl e
      \<longrightarrow> middleware ratelimit_limit req =
            (NextResponse_next [], [ConsoleError ''Rate limiting error:''])"
    by (simp add: middleware_def)
  have reject: "startsWith (nextUrl_pathname req) ''/api/''
        \<and> ratelimit_limit (client_ip req) = Inr r'
        \<and> \<not> success r' \<and> \<bar>reset r'\<bar> \<le> 8640000000000000
      \<longrightarrow> (\<exists>h. middleware ratelimit_limit req =
                 (NextResponse_json 429 ''RATE_LIMIT_EXCEEDED''
                    ''Too many requests. Please try again later.'' h, []))"
    by (simp add: middleware_def rate_limit_headers_def toISOString_def)
  from open' reject middleware_json [of ratelimit_limit req st c m hs evs] show ?thesis
    by blast
qed

theorem middleware_fails_open_witness:
  "startsWith (nextUrl_pathname (request_of None)) ''/api/''
   \<and> limiter_down (client_ip (request_of None)) = Inl KVError
   \<and> middleware limiter_down (request_of None) =
       (NextResponse_next [], [ConsoleError ''Rate limiting error:''])
   \<and> middleware limiter_exceeded (request_of None) =
       (NextResponse_json 429 ''RATE_LIMIT_EXCEEDED''
          ''Too many requests. Please try again later.''
          [(''X-RateLimit-Limit'', Number_toString 20),
           (''X-RateLimit-Remaining'', Number_toString 0),
           (''X-RateLimit-Reset'', Date_toISOString 1704067260000)], [])"
proof -
  have p: "startsWith (nextUrl_pathname (request_of None)) ''/api/''"
    by (simp add: request_of_def startsWith_def)
  have d: "limiter_down (client_ip (request_of None)) = Inl KVError"
    by (simp add: limiter_down_def)
  have x: "middleware limiter_exceeded (request_of None) =
       (NextResponse_json 429 ''RATE_LIMIT_EXCEEDED''
          ''Too many requests. Please try again later.''
          [(''X-RateLimit-Limit'', Number_toString 20),
           (''X-RateLimit-Remaining'', Number_toString 0),
           (''X-RateLimit-Reset'', Date_toISOString 1704067260000)], [])"
    by (simp add: middleware_def request_of_def startsWith_def client_ip_def
          limiter_exceeded_def rate_limit_headers_def toISOString_def)
  show ?thesis
    using middleware_fails_open [of "request_of None" limiter_down KVError] p d x
    by simp
qed

end
